theory Spec2Isabelle
  imports Main "HOL-Library.Word"
begin

section \<open>Common types\<close>

text \<open>
  Go's fixed-width integers are words: \<open>uint32\<close> and \<open>uint64\<close> are read with \<open>unat\<close>,
  \<open>int64\<close> with \<open>sint\<close>. Byte slices are lists of 8-bit words.
\<close>

type_synonym u32 = "32 word"
type_synonym u64 = "64 word"
type_synonym i64 = "64 word"
type_synonym bytes = "8 word list"

text \<open>
  Go's \<open>error\<close> values. The errors this package creates itself have a constructor each;
  \<open>ErrLib\<close> is an error handed over by a library the package calls.
\<close>

datatype error =
    ErrLib string
  | ErrNoTransaction u64 i64
  | ErrEmptyChainID
  | ErrAddressRequired
  | ErrNoData

text \<open>
  What a call of an RPC method does: it returns Go's pair of a result pointer
  (\<open>None\<close> is \<open>nil\<close>) and an error (\<open>None\<close> is \<open>nil\<close>), or it panics.
\<close>

datatype 'a go_result = Returns "'a option" "error option" | Panics

section \<open>api.go: the net service\<close>

record NetRPCService =
  networkVersion :: u64

definition NewNetRPCService :: "u64 \<Rightarrow> NetRPCService" where
  "NewNetRPCService nv = \<lparr>networkVersion = nv\<rparr>"

definition Listening :: "NetRPCService \<Rightarrow> bool" where
  "Listening s = True"

definition PeerCount :: "NetRPCService \<Rightarrow> u64" where
  "PeerCount s = 0"

text \<open>\<open>fmt.Sprintf("%d", v)\<close> for an unsigned \<open>v\<close>: the decimal digits, most significant first.\<close>

definition digit_char :: "nat \<Rightarrow> char" where
  "digit_char d = char_of (48 + d)"

function Sprintf_d :: "nat \<Rightarrow> string" where
  "Sprintf_d n = (if n < 10 then [digit_char n] else Sprintf_d (n div 10) @ [digit_char (n mod 10)])"
  by pat_completeness auto
termination
  by (relation "measure id") auto

declare Sprintf_d.simps [simp del]

definition Version :: "NetRPCService \<Rightarrow> string" where
  "Version s = Sprintf_d (unat (networkVersion s))"

text \<open>
  The reading of a decimal string, to compare \<open>Version\<close> with: the characters allowed,
  and the number a string of digits denotes.
\<close>

definition is_digit :: "char \<Rightarrow> bool" where
  "is_digit c = (48 \<le> (of_char c :: nat) \<and> (of_char c :: nat) \<le> 57)"

definition is_nonzero_digit :: "char \<Rightarrow> bool" where
  "is_nonzero_digit c = (49 \<le> (of_char c :: nat) \<and> (of_char c :: nat) \<le> 57)"

definition decimal_value :: "string \<Rightarrow> nat" where
  "decimal_value cs = foldl (\<lambda>acc c. 10 * acc + ((of_char c :: nat) - 48)) 0 cs"

section \<open>api.go: the cmt service\<close>

text \<open>
  The consensus client, the account manager and the serialization library are not part of
  this package: their operations are fields of records, so that every statement holds for
  whatever they answer. \<open>Block\<close> and \<open>ABCIQuery\<close> answer with a result or an error;
  \<open>Tx\<close>, \<open>ABCIQueryWithOptions\<close> and \<open>BroadcastTxCommit\<close> answer with Go's pair, which
  the package hands on or inspects component by component.
\<close>

record Block =
  NumTxs :: i64
  Txs :: "bytes list"

record ResultTx =
  TxHeight :: i64
  TxIndex :: u32
  TxBytes :: bytes

record ResponseQuery =
  RespValue :: bytes
  RespHeight :: i64

record ABCIQueryOptions =
  Trusted :: bool
  OptHeight :: i64

record ResultBroadcastTxCommit =
  CommitHash :: bytes
  CommitHeight :: i64

record Client =
  Block :: "i64 \<Rightarrow> error + Block"
  Tx :: "bytes \<Rightarrow> bool \<Rightarrow> ResultTx option \<times> error option"
  ABCIQuery :: "string \<Rightarrow> bytes \<Rightarrow> error + ResponseQuery"
  ABCIQueryWithOptions :: "string \<Rightarrow> bytes \<Rightarrow> ABCIQueryOptions \<Rightarrow> ResponseQuery option \<times> error option"
  BroadcastTxCommit :: "bytes \<Rightarrow> ResultBroadcastTxCommit option \<times> error option"

text \<open>
  The string helpers of the libraries: \<open>cmn.StripHex\<close>, \<open>hex.DecodeString\<close>,
  \<open>hex.EncodeToString\<close>, and the hash of a transaction's bytes.
\<close>

record HexLib =
  StripHex :: "string \<Rightarrow> string"
  DecodeString :: "string \<Rightarrow> error + bytes"
  EncodeToString :: "bytes \<Rightarrow> string"
  TxHash :: "bytes \<Rightarrow> bytes"

record Backend =
  chainID :: string
  localClient :: Client

record CmtRPCService =
  cmt_backend :: Backend

definition NewCmtRPCService :: "Backend \<Rightarrow> CmtRPCService" where
  "NewCmtRPCService b = \<lparr>cmt_backend = b\<rparr>"

text \<open>\<open>cast.ToInt64\<close> of a \<open>uint64\<close> is Go's conversion \<open>int64(v)\<close>: the same 64 bits.\<close>

definition ToInt64 :: "u64 \<Rightarrow> i64" where
  "ToInt64 v = v"

definition GetBlock :: "CmtRPCService \<Rightarrow> u64 \<Rightarrow> Block go_result" where
  "GetBlock s height =
     (let h = ToInt64 height in
      case Block (localClient (cmt_backend s)) h of
        Inl e \<Rightarrow> Returns None (Some e)
      | Inr b \<Rightarrow> Returns (Some b) None)"

definition GetTransaction :: "HexLib \<Rightarrow> CmtRPCService \<Rightarrow> string \<Rightarrow> ResultTx go_result" where
  "GetTransaction hx s hash =
     (case DecodeString hx (StripHex hx hash) of
        Inl err \<Rightarrow> Returns None (Some err)
      | Inr bkey \<Rightarrow>
          (case Tx (localClient (cmt_backend s)) bkey False of
             (r, err) \<Rightarrow> Returns r err))"

text \<open>
  Go's indexing \<open>xs[i]\<close> with a signed index: the runtime checks \<open>0 \<le> i < len(xs)\<close>
  and panics otherwise.
\<close>

definition go_index :: "'a list \<Rightarrow> i64 \<Rightarrow> 'a option" where
  "go_index xs i =
     (if 0 \<le> sint i \<and> sint i < int (length xs) then Some (xs ! nat (sint i)) else None)"

definition GetTransactionFromBlock ::
  "HexLib \<Rightarrow> CmtRPCService \<Rightarrow> u64 \<Rightarrow> i64 \<Rightarrow> ResultTx go_result" where
  "GetTransactionFromBlock hx s height index =
     (let h = ToInt64 height in
      case Block (localClient (cmt_backend s)) h of
        Inl err \<Rightarrow> Returns None (Some err)
      | Inr block \<Rightarrow>
          if NumTxs block \<le>s index
          then Returns None (Some (ErrNoTransaction height index))
          else (case go_index (Txs block) index of
                  None \<Rightarrow> Panics
                | Some t \<Rightarrow> GetTransaction hx s (EncodeToString hx (TxHash hx t))))"

section \<open>api.go: the stake service\<close>

subsection \<open>Transactions and the libraries around them\<close>

datatype PubKey = PubKeyBytes bytes

record Actor =
  ActorChainID :: string
  ActorApp :: string
  ActorAddress :: bytes

record Account =
  AccAddress :: bytes

record EthTransaction =
  eth_nonce :: u64
  eth_to :: bytes
  eth_amount :: int
  eth_gasLimit :: int
  eth_gasPrice :: int
  eth_data :: bytes

definition NewTransaction :: "u64 \<Rightarrow> bytes \<Rightarrow> int \<Rightarrow> int \<Rightarrow> int \<Rightarrow> bytes \<Rightarrow> EthTransaction" where
  "NewTransaction n to amount gasLimit gasPrice d =
     \<lparr>eth_nonce = n, eth_to = to, eth_amount = amount, eth_gasLimit = gasLimit,
      eth_gasPrice = gasPrice, eth_data = d\<rparr>"

record SignedTx =
  signed_tx :: EthTransaction
  signed_by :: bytes
  signed_chain :: int

text \<open>
  The transactions of the application, one constructor for each constructor function the
  package calls: \<open>stake.NewTxDeclare\<close>, \<open>stake.NewTxProposeSlot\<close>, \<open>stake.NewTxAcceptSlot\<close>,
  \<open>stake.NewTxWithdrawSlot\<close>, \<open>stake.NewTxCancelSlot\<close>, \<open>nonce.NewTx\<close>, \<open>base.NewChainTx\<close>
  and \<open>auth.NewSig(tx).Wrap()\<close>. The signature wrapper is the only transaction that can
  be signed; it starts without a signature.
\<close>

datatype tx =
    TxDeclare PubKey
  | TxProposeSlot PubKey i64 i64
  | TxAcceptSlot i64 string
  | TxWithdrawSlot i64 string
  | TxCancelSlot PubKey string
  | NonceTx u32 "Actor list" tx
  | ChainTx string u64 tx
  | OneSig tx "SignedTx option"

text \<open>The payloads that the queries decode. The stake module's own types stay opaque.\<close>

typedecl Candidate
typedecl Slot
typedecl SlotDelegate

datatype payload =
    PubKeys "PubKey list"
  | CandidateData Candidate
  | SlotData Slot
  | SlotDelegates "SlotDelegate list"

text \<open>
  The functions of other packages that the stake service calls. \<open>ReadUint32\<close>,
  \<open>ReadPubKeys\<close>, \<open>ReadCandidate\<close>, \<open>ReadSlot\<close> and \<open>ReadSlotDelegates\<close> are
  \<open>wire.ReadBinaryBytes\<close> at the type of the pointer it is given. \<open>ValidateBasic\<close>,
  \<open>SignBytes\<close> and \<open>Sign\<close> are the methods of a transaction; \<open>Sign\<close> answers with the
  wrapper as it is after signing, or with an error.
\<close>

record Lib =
  GetPubKey :: "string \<Rightarrow> error + PubKey"
  HexToAddress :: "string \<Rightarrow> bytes"
  SigPerm :: "bytes \<Rightarrow> Actor"
  PrefixedKey :: "string \<Rightarrow> bytes \<Rightarrow> bytes"
  NameNonce :: string
  GetSeqKey :: "Actor list \<Rightarrow> bytes"
  BinaryBytes :: "tx \<Rightarrow> bytes"
  ValidateBasic :: "tx \<Rightarrow> error option"
  SignBytes :: "tx \<Rightarrow> bytes"
  Sign :: "tx \<Rightarrow> SignedTx \<Rightarrow> error + tx"
  ReadUint32 :: "bytes \<Rightarrow> error + u32"
  StakeName :: string
  CandidatesPubKeysKey :: bytes
  GetCandidateKey :: "PubKey \<Rightarrow> bytes"
  GetDelegatorBondsKey :: "Actor \<Rightarrow> bytes"
  ParseActor :: "string \<Rightarrow> error + Actor"
  ChainAddr :: "Actor \<Rightarrow> Actor"
  ReadPubKeys :: "bytes \<Rightarrow> error + PubKey list"
  ReadCandidate :: "bytes \<Rightarrow> error + Candidate"
  ReadSlot :: "bytes \<Rightarrow> error + Slot"
  ReadSlotDelegates :: "bytes \<Rightarrow> error + SlotDelegate list"

text \<open>
  The account manager: \<open>Find\<close> answers with the wallet that holds the account, or with
  an error and no wallet.
\<close>

record Wallet =
  SignTx :: "Account \<Rightarrow> EthTransaction \<Rightarrow> int \<Rightarrow> error + SignedTx"

record Manager =
  Find :: "Account \<Rightarrow> error + Wallet"

record StakeRPCService =
  backend :: Backend
  am :: Manager

text \<open>
  What a helper of the service does: it returns a value, returns an error, or panics.
\<close>

datatype 'a res = Ok 'a | Err error | Panicked

text \<open>
  A call of a submission method: the byte strings it handed to \<open>BroadcastTxCommit\<close>, in
  order, and what it returned.
\<close>

type_synonym 'a traced = "bytes list \<times> 'a go_result"

subsection \<open>Preparing and signing\<close>

definition getChainID :: "StakeRPCService \<Rightarrow> error + string" where
  "getChainID s =
     (if chainID (backend s) = [] then Inl ErrEmptyChainID else Inr (chainID (backend s)))"

definition getSignerAct :: "Lib \<Rightarrow> string \<Rightarrow> Actor" where
  "getSignerAct lib address = (let signer = HexToAddress lib address in SigPerm lib signer)"

text \<open>
  \<open>getSequence\<close> writes through the pointer \<open>sequence\<close>: the model takes the value it
  points to and returns the value it points to afterwards.
\<close>

definition getSequence :: "Lib \<Rightarrow> StakeRPCService \<Rightarrow> Actor list \<Rightarrow> u32 \<Rightarrow> error + u32" where
  "getSequence lib s signers sequence =
     (let key = PrefixedKey lib (NameNonce lib) (GetSeqKey lib signers) in
      case ABCIQuery (localClient (backend s)) ''/key'' key of
        Inl err \<Rightarrow> Inl err
      | Inr result \<Rightarrow>
          if length (RespValue result) = 0 then Inr sequence
          else ReadUint32 lib (RespValue result))"

text \<open>
  \<open>sign\<close>: the error of \<open>Find\<close> is overwritten by the next assignment before anything
  reads it, so a missing wallet is a nil interface whose method \<open>SignTx\<close> is called.
\<close>

definition sign :: "Lib \<Rightarrow> StakeRPCService \<Rightarrow> tx \<Rightarrow> string \<Rightarrow> tx res" where
  "sign lib s d address =
     (let ethTx = NewTransaction 0 (replicate 20 0) 0 0 0 (SignBytes lib d);
          addr = HexToAddress lib address;
          account = \<lparr>AccAddress = addr\<rparr>
      in case Find (am s) account of
           Inl _ \<Rightarrow> Panicked
         | Inr wallet \<Rightarrow>
             (case SignTx wallet account ethTx 15 of
                Inl err \<Rightarrow> Err err
              | Inr stx \<Rightarrow>
                  (case Sign lib d stx of
                     Inl err \<Rightarrow> Err err
                   | Inr d' \<Rightarrow> Ok d')))"

fun is_Signable :: "tx \<Rightarrow> bool" where
  "is_Signable (OneSig t sg) = True"
| "is_Signable t = False"

definition signTx :: "Lib \<Rightarrow> StakeRPCService \<Rightarrow> tx \<Rightarrow> string \<Rightarrow> tx res" where
  "signTx lib s t address =
     (case ValidateBasic lib t of
        Some err \<Rightarrow> Err err
      | None \<Rightarrow>
          if is_Signable t
          then (if address = [] then Err ErrAddressRequired else sign lib s t address)
          else Ok t)"

definition wrapAndSignTx :: "Lib \<Rightarrow> StakeRPCService \<Rightarrow> tx \<Rightarrow> string \<Rightarrow> u32 \<Rightarrow> tx res" where
  "wrapAndSignTx lib s t address sequence =
     (let signers = [getSignerAct lib address] in
      case (if sequence \<le> 0
            then (case getSequence lib s signers sequence of
                    Inl err \<Rightarrow> Inl err
                  | Inr sq \<Rightarrow> Inr (sq + 1))
            else Inr sequence) of
        Inl err \<Rightarrow> Err err
      | Inr sequence' \<Rightarrow>
          (let t1 = NonceTx sequence' signers t in
           case getChainID s of
             Inl err \<Rightarrow> Err err
           | Inr cid \<Rightarrow>
               (let t2 = ChainTx cid 0 t1;
                    t3 = OneSig t2 None
                in signTx lib s t3 address)))"

definition broadcastTx :: "Lib \<Rightarrow> StakeRPCService \<Rightarrow> tx \<Rightarrow> ResultBroadcastTxCommit traced" where
  "broadcastTx lib s t =
     (let key = BinaryBytes lib t in
      case BroadcastTxCommit (localClient (backend s)) key of
        (r, err) \<Rightarrow> ([key], Returns r err))"

text \<open>The shape shared by the five submission methods: prepare, give up on an error, broadcast.\<close>

definition submit_prepared :: "Lib \<Rightarrow> StakeRPCService \<Rightarrow> tx res \<Rightarrow> ResultBroadcastTxCommit traced" where
  "submit_prepared lib s p =
     (case p of
        Err err \<Rightarrow> ([], Returns None (Some err))
      | Panicked \<Rightarrow> ([], Panics)
      | Ok t \<Rightarrow> broadcastTx lib s t)"

subsection \<open>The submission methods\<close>

record DeclareCandidacyArgs =
  Sequence_dc :: u32
  From_dc :: string
  PubKey_dc :: string

definition prepareDeclareCandidacyTx :: "Lib \<Rightarrow> StakeRPCService \<Rightarrow> DeclareCandidacyArgs \<Rightarrow> tx res" where
  "prepareDeclareCandidacyTx lib s args =
     (case GetPubKey lib (PubKey_dc args) of
        Inl err \<Rightarrow> Err err
      | Inr pubKey \<Rightarrow> wrapAndSignTx lib s (TxDeclare pubKey) (From_dc args) (Sequence_dc args))"

definition DeclareCandidacy ::
  "Lib \<Rightarrow> StakeRPCService \<Rightarrow> DeclareCandidacyArgs \<Rightarrow> ResultBroadcastTxCommit traced" where
  "DeclareCandidacy lib s args = submit_prepared lib s (prepareDeclareCandidacyTx lib s args)"

record ProposeSlotArgs =
  Sequence_ps :: u32
  From_ps :: string
  PubKey_ps :: string
  Amount_ps :: i64
  ProposedRoi_ps :: i64

definition prepareProposeSlotTx :: "Lib \<Rightarrow> StakeRPCService \<Rightarrow> ProposeSlotArgs \<Rightarrow> tx res" where
  "prepareProposeSlotTx lib s args =
     (case GetPubKey lib (PubKey_ps args) of
        Inl err \<Rightarrow> Err err
      | Inr pubKey \<Rightarrow>
          wrapAndSignTx lib s (TxProposeSlot pubKey (Amount_ps args) (ProposedRoi_ps args))
            (From_ps args) (Sequence_ps args))"

definition ProposeSlot ::
  "Lib \<Rightarrow> StakeRPCService \<Rightarrow> ProposeSlotArgs \<Rightarrow> ResultBroadcastTxCommit traced" where
  "ProposeSlot lib s args = submit_prepared lib s (prepareProposeSlotTx lib s args)"

record AcceptSlotArgs =
  Sequence_as :: u32
  From_as :: string
  Amount_as :: i64
  SlotId_as :: string

definition prepareAcceptSlotTx :: "Lib \<Rightarrow> StakeRPCService \<Rightarrow> AcceptSlotArgs \<Rightarrow> tx res" where
  "prepareAcceptSlotTx lib s args =
     wrapAndSignTx lib s (TxAcceptSlot (Amount_as args) (SlotId_as args))
       (From_as args) (Sequence_as args)"

definition AcceptSlot ::
  "Lib \<Rightarrow> StakeRPCService \<Rightarrow> AcceptSlotArgs \<Rightarrow> ResultBroadcastTxCommit traced" where
  "AcceptSlot lib s args = submit_prepared lib s (prepareAcceptSlotTx lib s args)"

record WithdrawSlotArgs =
  Sequence_ws :: u32
  From_ws :: string
  Amount_ws :: i64
  SlotId_ws :: string

definition prepareWithdrawSlotTx :: "Lib \<Rightarrow> StakeRPCService \<Rightarrow> WithdrawSlotArgs \<Rightarrow> tx res" where
  "prepareWithdrawSlotTx lib s args =
     wrapAndSignTx lib s (TxWithdrawSlot (Amount_ws args) (SlotId_ws args))
       (From_ws args) (Sequence_ws args)"

definition WithdrawSlot ::
  "Lib \<Rightarrow> StakeRPCService \<Rightarrow> WithdrawSlotArgs \<Rightarrow> ResultBroadcastTxCommit traced" where
  "WithdrawSlot lib s args = submit_prepared lib s (prepareWithdrawSlotTx lib s args)"

record CancelSlotArgs =
  Sequence_cs :: u32
  From_cs :: string
  PubKey_cs :: string
  SlotId_cs :: string

definition prepareCancelSlotTx :: "Lib \<Rightarrow> StakeRPCService \<Rightarrow> CancelSlotArgs \<Rightarrow> tx res" where
  "prepareCancelSlotTx lib s args =
     (case GetPubKey lib (PubKey_cs args) of
        Inl err \<Rightarrow> Err err
      | Inr pubKey \<Rightarrow>
          wrapAndSignTx lib s (TxCancelSlot pubKey (SlotId_cs args))
            (From_cs args) (Sequence_cs args))"

definition CancelSlot ::
  "Lib \<Rightarrow> StakeRPCService \<Rightarrow> CancelSlotArgs \<Rightarrow> ResultBroadcastTxCommit traced" where
  "CancelSlot lib s args = submit_prepared lib s (prepareCancelSlotTx lib s args)"

text \<open>
  The method table of the RPC server for the submissions: a call names the method and
  carries its arguments.
\<close>

datatype StakeCall =
    CallDeclareCandidacy DeclareCandidacyArgs
  | CallProposeSlot ProposeSlotArgs
  | CallAcceptSlot AcceptSlotArgs
  | CallWithdrawSlot WithdrawSlotArgs
  | CallCancelSlot CancelSlotArgs

fun submit :: "Lib \<Rightarrow> StakeRPCService \<Rightarrow> StakeCall \<Rightarrow> ResultBroadcastTxCommit traced" where
  "submit lib s (CallDeclareCandidacy args) = DeclareCandidacy lib s args"
| "submit lib s (CallProposeSlot args) = ProposeSlot lib s args"
| "submit lib s (CallAcceptSlot args) = AcceptSlot lib s args"
| "submit lib s (CallWithdrawSlot args) = WithdrawSlot lib s args"
| "submit lib s (CallCancelSlot args) = CancelSlot lib s args"

text \<open>
  What the claims say of a call, to compare the methods with: the address it is from,
  the sequence it carries, the stake transaction its arguments describe, and the
  transaction that is to be signed for a nonce sequence.
\<close>

fun call_From :: "StakeCall \<Rightarrow> string" where
  "call_From (CallDeclareCandidacy args) = From_dc args"
| "call_From (CallProposeSlot args) = From_ps args"
| "call_From (CallAcceptSlot args) = From_as args"
| "call_From (CallWithdrawSlot args) = From_ws args"
| "call_From (CallCancelSlot args) = From_cs args"

fun call_Sequence :: "StakeCall \<Rightarrow> u32" where
  "call_Sequence (CallDeclareCandidacy args) = Sequence_dc args"
| "call_Sequence (CallProposeSlot args) = Sequence_ps args"
| "call_Sequence (CallAcceptSlot args) = Sequence_as args"
| "call_Sequence (CallWithdrawSlot args) = Sequence_ws args"
| "call_Sequence (CallCancelSlot args) = Sequence_cs args"

fun stake_tx_of :: "Lib \<Rightarrow> StakeCall \<Rightarrow> error + tx" where
  "stake_tx_of lib (CallDeclareCandidacy args) =
     map_sum id TxDeclare (GetPubKey lib (PubKey_dc args))"
| "stake_tx_of lib (CallProposeSlot args) =
     map_sum id (\<lambda>pk. TxProposeSlot pk (Amount_ps args) (ProposedRoi_ps args))
       (GetPubKey lib (PubKey_ps args))"
| "stake_tx_of lib (CallAcceptSlot args) = Inr (TxAcceptSlot (Amount_as args) (SlotId_as args))"
| "stake_tx_of lib (CallWithdrawSlot args) = Inr (TxWithdrawSlot (Amount_ws args) (SlotId_ws args))"
| "stake_tx_of lib (CallCancelSlot args) =
     map_sum id (\<lambda>pk. TxCancelSlot pk (SlotId_cs args)) (GetPubKey lib (PubKey_cs args))"

definition wrapped_tx :: "Lib \<Rightarrow> StakeRPCService \<Rightarrow> string \<Rightarrow> u32 \<Rightarrow> tx \<Rightarrow> tx" where
  "wrapped_tx lib s address sq inner =
     OneSig (ChainTx (chainID (backend s)) 0
               (NonceTx sq [SigPerm lib (HexToAddress lib address)] inner)) None"

text \<open>The nonce sequence of a wrapped transaction, if it is one.\<close>

fun nonce_sequence :: "tx \<Rightarrow> u32 option" where
  "nonce_sequence (OneSig (ChainTx cid ex (NonceTx sq signers t)) sg) = Some sq"
| "nonce_sequence t = None"

subsection \<open>The query methods\<close>

record StakeQueryResult =
  Height :: i64
  Data :: payload

text \<open>Go's conversion \<open>[]byte(s)\<close> of a string.\<close>

definition bytes_of_string :: "string \<Rightarrow> bytes" where
  "bytes_of_string cs = map (\<lambda>c. word_of_nat (of_char c)) cs"

text \<open>
  \<open>get\<close> returns the value, the height and the error as the code does: the height asked
  for when the client gave no response, the response's height otherwise.
\<close>

definition get :: "StakeRPCService \<Rightarrow> string \<Rightarrow> bytes \<Rightarrow> i64 \<Rightarrow> bytes \<times> i64 \<times> error option" where
  "get s path key height =
     (let node = localClient (backend s) in
      case ABCIQueryWithOptions node path key \<lparr>Trusted = True, OptHeight = height\<rparr> of
        (None, err) \<Rightarrow> ([], height, err)
      | (Some resp, err) \<Rightarrow> (RespValue resp, RespHeight resp, err))"

text \<open>
  \<open>getParsed\<close> fills the value behind the pointer \<open>data\<close> and returns a height and an
  error. The model takes the decoder for the pointer's type and returns the error, or
  the height with the decoded value; the height returned beside an error is read by no
  caller.
\<close>

definition getParsed ::
  "StakeRPCService \<Rightarrow> string \<Rightarrow> bytes \<Rightarrow> (bytes \<Rightarrow> error + 'a) \<Rightarrow> u64 \<Rightarrow> error + (i64 \<times> 'a)" where
  "getParsed s path key rd height =
     (case get s path key (ToInt64 height) of
        (bs, h, Some err) \<Rightarrow> Inl err
      | (bs, h, None) \<Rightarrow>
          if length bs = 0 then Inl ErrNoData
          else (case rd bs of
                  Inl err \<Rightarrow> Inl err
                | Inr d \<Rightarrow> Inr (h, d)))"

definition QueryValidators :: "Lib \<Rightarrow> StakeRPCService \<Rightarrow> u64 \<Rightarrow> StakeQueryResult go_result" where
  "QueryValidators lib s height =
     (let key = PrefixedKey lib (StakeName lib) (CandidatesPubKeysKey lib) in
      case getParsed s ''/key'' key (ReadPubKeys lib) height of
        Inl err \<Rightarrow> Returns None (Some err)
      | Inr (h, pks) \<Rightarrow> Returns (Some \<lparr>Height = h, Data = PubKeys pks\<rparr>) None)"

definition QueryValidator ::
  "Lib \<Rightarrow> StakeRPCService \<Rightarrow> string \<Rightarrow> u64 \<Rightarrow> StakeQueryResult go_result" where
  "QueryValidator lib s pubkey height =
     (case GetPubKey lib pubkey of
        Inl err \<Rightarrow> Returns None (Some err)
      | Inr pk \<Rightarrow>
          (let key = PrefixedKey lib (StakeName lib) (GetCandidateKey lib pk) in
           case getParsed s ''/key'' key (ReadCandidate lib) height of
             Inl err \<Rightarrow> Returns None (Some err)
           | Inr (h, candidate) \<Rightarrow>
               Returns (Some \<lparr>Height = h, Data = CandidateData candidate\<rparr>) None))"

definition QuerySlots ::
  "Lib \<Rightarrow> StakeRPCService \<Rightarrow> string \<Rightarrow> u64 \<Rightarrow> StakeQueryResult go_result" where
  "QuerySlots lib s address height =
     (case ParseActor lib address of
        Inl err \<Rightarrow> Returns None (Some err)
      | Inr delegator0 \<Rightarrow>
          (let delegator = ChainAddr lib delegator0;
               key = PrefixedKey lib (StakeName lib) (GetDelegatorBondsKey lib delegator)
           in case getParsed s ''/key'' key (ReadPubKeys lib) height of
                Inl err \<Rightarrow> Returns None (Some err)
              | Inr (h, candidates) \<Rightarrow>
                  Returns (Some \<lparr>Height = h, Data = PubKeys candidates\<rparr>) None))"

definition QuerySlot ::
  "Lib \<Rightarrow> StakeRPCService \<Rightarrow> string \<Rightarrow> u64 \<Rightarrow> StakeQueryResult go_result" where
  "QuerySlot lib s slotId height =
     (case getParsed s ''/slot'' (bytes_of_string slotId) (ReadSlot lib) height of
        Inl err \<Rightarrow> Returns None (Some err)
      | Inr (h, slot) \<Rightarrow> Returns (Some \<lparr>Height = h, Data = SlotData slot\<rparr>) None)"

definition QueryDelegator ::
  "Lib \<Rightarrow> StakeRPCService \<Rightarrow> string \<Rightarrow> u64 \<Rightarrow> StakeQueryResult go_result" where
  "QueryDelegator lib s address height =
     (case getParsed s ''/delegator'' (bytes_of_string address) (ReadSlotDelegates lib) height of
        Inl err \<Rightarrow> Returns None (Some err)
      | Inr (h, slotDelegates) \<Rightarrow>
          Returns (Some \<lparr>Height = h, Data = SlotDelegates slotDelegates\<rparr>) None)"

text \<open>The method table of the RPC server for the queries.\<close>

datatype QueryCall =
    CallQueryValidators u64
  | CallQueryValidator string u64
  | CallQuerySlots string u64
  | CallQuerySlot string u64
  | CallQueryDelegator string u64

fun query :: "Lib \<Rightarrow> StakeRPCService \<Rightarrow> QueryCall \<Rightarrow> StakeQueryResult go_result" where
  "query lib s (CallQueryValidators height) = QueryValidators lib s height"
| "query lib s (CallQueryValidator pubkey height) = QueryValidator lib s pubkey height"
| "query lib s (CallQuerySlots address height) = QuerySlots lib s address height"
| "query lib s (CallQuerySlot slotId height) = QuerySlot lib s slotId height"
| "query lib s (CallQueryDelegator address height) = QueryDelegator lib s address height"

text \<open>
  What the claims say of a query, to compare the methods with: the path and the key it
  asks the store for (building the key can fail), the height it asks at, and the decoding
  of the value into the payload of its result.
\<close>

fun query_path :: "QueryCall \<Rightarrow> string" where
  "query_path (CallQueryValidators height) = ''/key''"
| "query_path (CallQueryValidator pubkey height) = ''/key''"
| "query_path (CallQuerySlots address height) = ''/key''"
| "query_path (CallQuerySlot slotId height) = ''/slot''"
| "query_path (CallQueryDelegator address height) = ''/delegator''"

fun query_key :: "Lib \<Rightarrow> QueryCall \<Rightarrow> error + bytes" where
  "query_key lib (CallQueryValidators height) =
     Inr (PrefixedKey lib (StakeName lib) (CandidatesPubKeysKey lib))"
| "query_key lib (CallQueryValidator pubkey height) =
     map_sum id (\<lambda>pk. PrefixedKey lib (StakeName lib) (GetCandidateKey lib pk))
       (GetPubKey lib pubkey)"
| "query_key lib (CallQuerySlots address height) =
     map_sum id
       (\<lambda>a. PrefixedKey lib (StakeName lib) (GetDelegatorBondsKey lib (ChainAddr lib a)))
       (ParseActor lib address)"
| "query_key lib (CallQuerySlot slotId height) = Inr (bytes_of_string slotId)"
| "query_key lib (CallQueryDelegator address height) = Inr (bytes_of_string address)"

fun query_height :: "QueryCall \<Rightarrow> u64" where
  "query_height (CallQueryValidators height) = height"
| "query_height (CallQueryValidator pubkey height) = height"
| "query_height (CallQuerySlots address height) = height"
| "query_height (CallQuerySlot slotId height) = height"
| "query_height (CallQueryDelegator address height) = height"

fun query_decode :: "Lib \<Rightarrow> QueryCall \<Rightarrow> bytes \<Rightarrow> error + payload" where
  "query_decode lib (CallQueryValidators height) bs = map_sum id PubKeys (ReadPubKeys lib bs)"
| "query_decode lib (CallQueryValidator pubkey height) bs =
     map_sum id CandidateData (ReadCandidate lib bs)"
| "query_decode lib (CallQuerySlots address height) bs = map_sum id PubKeys (ReadPubKeys lib bs)"
| "query_decode lib (CallQuerySlot slotId height) bs = map_sum id SlotData (ReadSlot lib bs)"
| "query_decode lib (CallQueryDelegator address height) bs =
     map_sum id SlotDelegates (ReadSlotDelegates lib bs)"

section \<open>The init command\<close>

subsection \<open>Files, databases and the surroundings of a run\<close>

text \<open>
  What the command reads and writes: files by path, directories, and LevelDB databases by
  path. A file holds a private validator, a genesis document, or bytes.
\<close>

record PrivValidatorFS =
  pv_PubKey :: PubKey
  pv_PrivKey :: bytes
  pv_filePath :: string

record GenesisValidator =
  PubKey :: PubKey
  Power :: i64

record GenesisDoc =
  ChainID :: string
  Validators :: "GenesisValidator list"

datatype FileContent =
    PrivValidatorJSON PrivValidatorFS
  | GenesisJSON GenesisDoc
  | RawBytes string

record ChainConfig =
  ChainId :: int
  OtherRules :: string

record Genesis =
  Config :: "ChainConfig option"
  Alloc :: string

datatype ChainDb = ChainDb "Genesis option"

record World =
  files :: "string \<rightharpoonup> FileContent"
  dirs :: "string set"
  databases :: "string \<rightharpoonup> ChainDb"

text \<open>
  The surroundings of a run: the configuration, the command line, the key that
  \<open>GenPrivValidatorFS\<close> draws, the functions of other packages, and for every operation on
  the file system whether it fails. \<open>WriteError\<close> gives, for a write that fails, the number
  of bytes written before the error.
\<close>

record InitEnv =
  PrivValidatorFile :: string
  GenesisFile :: string
  GetString :: "string \<Rightarrow> string"
  FreshKey :: "PubKey \<times> bytes"
  SaveError :: "string \<Rightarrow> error option"
  ArgsFirst :: string
  ParseGenesisOrDefault :: "string \<Rightarrow> error + Genesis"
  EthChainId :: u64
  MakeDataDir :: string
  OpenDbError :: "string \<Rightarrow> error option"
  SetupGenesisBlock :: "ChainDb \<Rightarrow> Genesis \<Rightarrow> error + ChainDb \<times> bytes"
  MkdirAllError :: "string \<Rightarrow> error option"
  CreateError :: "string \<Rightarrow> error option"
  WriteError :: "string \<Rightarrow> (nat \<times> error) option"
  CloseError :: "string \<Rightarrow> error option"

text \<open>
  How a run ends: it returns (\<open>initTendermint\<close> returns nothing, \<open>initFiles\<close> and
  \<open>initEthermint\<close> return an error or nil), it panics, or it exits the process
  (\<open>ethUtils.Fatalf\<close>, \<open>cmn.Exit\<close>). Every function returns the world it leaves behind.
\<close>

datatype run_status = Finished "error option" | RunPanics | RunExits

definition FileExists :: "World \<Rightarrow> string \<Rightarrow> bool" where
  "FileExists w path = (files w path \<noteq> None)"

text \<open>\<open>filepath.Join\<close> of two clean, nonempty paths.\<close>

definition Join :: "string \<Rightarrow> string \<Rightarrow> string" where
  "Join a b = a @ ''/'' @ b"

text \<open>
  The private validator of the consensus library: \<open>LoadPrivValidatorFS\<close> reads the file
  and exits the process when it holds no private validator; \<open>GenPrivValidatorFS\<close> makes
  one with a new key; \<open>Save\<close> writes it to its path and panics when the write fails.
\<close>

definition LoadPrivValidatorFS :: "World \<Rightarrow> string \<Rightarrow> PrivValidatorFS option" where
  "LoadPrivValidatorFS w path =
     (case files w path of
        Some (PrivValidatorJSON pv) \<Rightarrow> Some (pv\<lparr>pv_filePath := path\<rparr>)
      | _ \<Rightarrow> None)"

definition GenPrivValidatorFS :: "InitEnv \<Rightarrow> string \<Rightarrow> PrivValidatorFS" where
  "GenPrivValidatorFS env path =
     \<lparr>pv_PubKey = fst (FreshKey env), pv_PrivKey = snd (FreshKey env), pv_filePath = path\<rparr>"

definition Save :: "InitEnv \<Rightarrow> PrivValidatorFS \<Rightarrow> World \<Rightarrow> World option" where
  "Save env pv w =
     (case SaveError env (pv_filePath pv) of
        Some err \<Rightarrow> None
      | None \<Rightarrow> Some (w\<lparr>files := (files w)(pv_filePath pv \<mapsto> PrivValidatorJSON pv)\<rparr>))"

definition GetPubKey_pv :: "PrivValidatorFS \<Rightarrow> PubKey" where
  "GetPubKey_pv pv = pv_PubKey pv"

definition SaveAs :: "InitEnv \<Rightarrow> GenesisDoc \<Rightarrow> string \<Rightarrow> World \<Rightarrow> error + World" where
  "SaveAs env genDoc path w =
     (case SaveError env path of
        Some err \<Rightarrow> Inl err
      | None \<Rightarrow> Inr (w\<lparr>files := (files w)(path \<mapsto> GenesisJSON genDoc)\<rparr>))"

text \<open>
  \<open>ethdb.NewLDBDatabase\<close> opens the database at a path and creates an empty one when there
  is none; \<open>SetupGenesisBlock\<close> answers with the database as it leaves it and a hash;
  \<open>os.MkdirAll\<close>, \<open>os.Create\<close>, \<open>Write\<close> and \<open>Close\<close> are the operations on the
  keystore directory and file. \<open>os.Create\<close> leaves an empty file.
\<close>

definition NewLDBDatabase :: "InitEnv \<Rightarrow> string \<Rightarrow> World \<Rightarrow> error + ChainDb \<times> World" where
  "NewLDBDatabase env path w =
     (case OpenDbError env path of
        Some err \<Rightarrow> Inl err
      | None \<Rightarrow>
          (case databases w path of
             Some db \<Rightarrow> Inr (db, w)
           | None \<Rightarrow> Inr (ChainDb None, w\<lparr>databases := (databases w)(path \<mapsto> ChainDb None)\<rparr>)))"

definition MkdirAll :: "InitEnv \<Rightarrow> string \<Rightarrow> World \<Rightarrow> error + World" where
  "MkdirAll env path w =
     (case MkdirAllError env path of
        Some err \<Rightarrow> Inl err
      | None \<Rightarrow> Inr (w\<lparr>dirs := insert path (dirs w)\<rparr>))"

definition Create :: "InitEnv \<Rightarrow> string \<Rightarrow> World \<Rightarrow> error + World" where
  "Create env path w =
     (case CreateError env path of
        Some err \<Rightarrow> Inl err
      | None \<Rightarrow> Inr (w\<lparr>files := (files w)(path \<mapsto> RawBytes [])\<rparr>))"

definition Write :: "InitEnv \<Rightarrow> string \<Rightarrow> string \<Rightarrow> World \<Rightarrow> error option \<times> World" where
  "Write env path content w =
     (case WriteError env path of
        Some (n, err) \<Rightarrow> (Some err, w\<lparr>files := (files w)(path \<mapsto> RawBytes (take n content))\<rparr>)
      | None \<Rightarrow> (None, w\<lparr>files := (files w)(path \<mapsto> RawBytes content)\<rparr>))"

subsection \<open>The command\<close>

definition FlagChainID :: string where
  "FlagChainID = ''chain-id''"

definition initTendermint :: "InitEnv \<Rightarrow> World \<Rightarrow> run_status \<times> World" where
  "initTendermint env w =
     (let privValFile = PrivValidatorFile env in
      case (if FileExists w privValFile
            then (case LoadPrivValidatorFS w privValFile of
                    None \<Rightarrow> Inl RunExits
                  | Some pv \<Rightarrow> Inr (pv, w))
            else (let pv = GenPrivValidatorFS env privValFile in
                  case Save env pv w of
                    None \<Rightarrow> Inl RunPanics
                  | Some w' \<Rightarrow> Inr (pv, w'))) of
        Inl st \<Rightarrow> (st, w)
      | Inr (privValidator, w1) \<Rightarrow>
          (let genFile = GenesisFile env in
           if FileExists w1 genFile then (Finished None, w1)
           else (let genDoc = \<lparr>ChainID = GetString env FlagChainID,
                               Validators = [\<lparr>PubKey = GetPubKey_pv privValidator,
                                              Power = 10\<rparr>]\<rparr>
                 in case SaveAs env genDoc genFile w1 of
                      Inl err \<Rightarrow> (RunPanics, w1)
                    | Inr w2 \<Rightarrow> (Finished None, w2))))"

definition keystore_content :: string where
  \<open>keystore_content =
     ''\<newline>''
     @ ''{\<newline>''
     @ ''  "address":"7eff122b94897ea5b0e2a9abf47b86337fafebdc",\<newline>''
     @ ''  "id":"f86a62b4-0621-4616-99af-c4b7f38fcc48","version":3,\<newline>''
     @ ''  "crypto":{\<newline>''
     @ ''    "cipher":"aes-128-ctr","ciphertext":"19de8a919e2f4cbdde2b7352ebd0be8ead2c87db35fc8e4c9acaf74aaaa57dad",\<newline>''
     @ ''    "cipherparams":{"iv":"ba2bd370d6c9d5845e92fbc6f951c792"},\<newline>''
     @ ''    "kdf":"scrypt","kdfparams":{"dklen":32,"n":262144,"p":1,"r":8,"salt":"c7cc2380a96adc9eb31d20bd8d8a7827199e8b16889582c0b9089da6a9f58e84"},\<newline>''
     @ ''    "mac":"ff2c0caf051ca15d8c43b6f321ec10bd99bd654ddcf12dd1a28f730cc3c13730"\<newline>''
     @ ''  }\<newline>''
     @ ''}\<newline>''\<close>

definition keystoreFilesMap :: "(string \<times> string) list" where
  "keystoreFilesMap =
     [(''UTC--2016-10-21T22-30-03.071787745Z--7eff122b94897ea5b0e2a9abf47b86337fafebdc'',
       keystore_content)]"

text \<open>The loop over \<open>keystoreFilesMap\<close> at the end of \<open>initEthermint\<close>.\<close>

fun seedKeystore ::
  "InitEnv \<Rightarrow> string \<Rightarrow> (string \<times> string) list \<Rightarrow> World \<Rightarrow> run_status \<times> World" where
  "seedKeystore env keystoreDir [] w = (Finished None, w)"
| "seedKeystore env keystoreDir ((filename, content) # rest) w =
     (let storeFileName = Join keystoreDir filename in
      case Create env storeFileName w of
        Inl err \<Rightarrow> seedKeystore env keystoreDir rest w
      | Inr w1 \<Rightarrow>
          (let w2 = snd (Write env storeFileName content w1) in
           case CloseError env storeFileName of
             Some err \<Rightarrow> (Finished (Some err), w2)
           | None \<Rightarrow> seedKeystore env keystoreDir rest w2))"

definition initEthermint :: "InitEnv \<Rightarrow> World \<Rightarrow> run_status \<times> World" where
  "initEthermint env w =
     (let genesisPath = ArgsFirst env in
      case ParseGenesisOrDefault env genesisPath of
        Inl err \<Rightarrow> (RunExits, w)
      | Inr genesis0 \<Rightarrow>
          (case Config genesis0 of
             None \<Rightarrow> (RunPanics, w)
           | Some cfg \<Rightarrow>
               (let genesis = genesis0\<lparr>Config := Some (cfg\<lparr>ChainId := uint (EthChainId env)\<rparr>)\<rparr>;
                    ethermintDataDir = MakeDataDir env;
                    dbPath = Join ethermintDataDir ''vm/chaindata''
                in case NewLDBDatabase env dbPath w of
                     Inl err \<Rightarrow> (RunExits, w)
                   | Inr (chainDb, w1) \<Rightarrow>
                       (case SetupGenesisBlock env chainDb genesis of
                          Inl err \<Rightarrow> (RunExits, w1)
                        | Inr (db, hash) \<Rightarrow>
                            (let w2 = w1\<lparr>databases := (databases w1)(dbPath \<mapsto> db)\<rparr>;
                                 keystoreDir = Join ethermintDataDir ''keystore''
                             in case MkdirAll env keystoreDir w2 of
                                  Inl err \<Rightarrow> (RunExits, w2)
                                | Inr w3 \<Rightarrow> seedKeystore env keystoreDir keystoreFilesMap w3)))))"

definition initFiles :: "InitEnv \<Rightarrow> World \<Rightarrow> run_status \<times> World" where
  "initFiles env w =
     (case initTendermint env w of
        (Finished r, w1) \<Rightarrow> initEthermint env w1
      | (st, w1) \<Rightarrow> (st, w1))"

record Flag =
  flag_name :: string
  flag_default :: string
  flag_usage :: string

record Command =
  Use :: string
  Short :: string
  RunE :: "InitEnv \<Rightarrow> World \<Rightarrow> run_status \<times> World"
  Flags :: "Flag list"

definition GetInitCmd :: Command where
  "GetInitCmd =
     \<lparr>Use = ''init'', Short = ''Initialize'', RunE = initFiles,
      Flags = [\<lparr>flag_name = FlagChainID, flag_default = ''local'', flag_usage = ''Chain ID''\<rparr>]\<rparr>"

text \<open>
  The paths that the claims speak of: the chaindata database, the keystore directory and
  the keystore file, below the data directory.
\<close>

definition chaindata_path :: "InitEnv \<Rightarrow> string" where
  "chaindata_path env = Join (MakeDataDir env) ''vm/chaindata''"

definition keystore_dir :: "InitEnv \<Rightarrow> string" where
  "keystore_dir env = Join (MakeDataDir env) ''keystore''"

definition keystore_file :: "InitEnv \<Rightarrow> string" where
  "keystore_file env =
     Join (keystore_dir env)
       ''UTC--2016-10-21T22-30-03.071787745Z--7eff122b94897ea5b0e2a9abf47b86337fafebdc''"

section \<open>Sample surroundings\<close>

text \<open>
  A client that knows one block, at every height, holding the transactions given, and
  that answers every query with the stored bytes given at height 7; a hex library that
  leaves every string as it is; the libraries of the stake service in a small version;
  an account manager with one wallet for the addresses given. The evaluations below run
  on them.
\<close>

definition sample_client :: "bytes list \<Rightarrow> bytes \<Rightarrow> Client" where
  "sample_client ts stored =
     \<lparr>Block = (\<lambda>h. Inr \<lparr>NumTxs = word_of_nat (length ts), Txs = ts\<rparr>),
      Tx = (\<lambda>k p. (Some \<lparr>TxHeight = 1, TxIndex = 0, TxBytes = k\<rparr>, None)),
      ABCIQuery = (\<lambda>p k. Inr \<lparr>RespValue = stored, RespHeight = 7\<rparr>),
      ABCIQueryWithOptions = (\<lambda>p k opts. (Some \<lparr>RespValue = stored, RespHeight = 7\<rparr>, None)),
      BroadcastTxCommit = (\<lambda>b. (Some \<lparr>CommitHash = b, CommitHeight = 8\<rparr>, None))\<rparr>"

definition sample_hex :: HexLib where
  "sample_hex =
     \<lparr>StripHex = (\<lambda>s. s),
      DecodeString = (\<lambda>s. Inr (bytes_of_string s)),
      EncodeToString = (\<lambda>b. map (\<lambda>w. char_of (unat w)) b),
      TxHash = (\<lambda>b. b)\<rparr>"

definition sample_cmt :: "bytes list \<Rightarrow> CmtRPCService" where
  "sample_cmt ts =
     NewCmtRPCService \<lparr>chainID = ''test-chain'', localClient = sample_client ts []\<rparr>"

fun sample_sequence_of :: "tx \<Rightarrow> bytes" where
  "sample_sequence_of (OneSig t sg) = sample_sequence_of t"
| "sample_sequence_of (ChainTx cid ex t) = sample_sequence_of t"
| "sample_sequence_of (NonceTx sq signers t) = [ucast sq]"
| "sample_sequence_of t = []"

fun sample_Sign :: "tx \<Rightarrow> SignedTx \<Rightarrow> error + tx" where
  "sample_Sign (OneSig t None) stx = Inr (OneSig t (Some stx))"
| "sample_Sign t stx = Inl (ErrLib ''too many signatures'')"

fun sample_ReadUint32 :: "bytes \<Rightarrow> error + u32" where
  "sample_ReadUint32 [b] = Inr (ucast b)"
| "sample_ReadUint32 bs = Inl (ErrLib ''wrong length'')"

definition sample_lib :: Lib where
  "sample_lib =
     \<lparr>GetPubKey = (\<lambda>s. if s = [] then Inl (ErrLib ''empty public key'')
                        else Inr (PubKeyBytes (bytes_of_string s))),
      HexToAddress = bytes_of_string,
      SigPerm = (\<lambda>a. \<lparr>ActorChainID = [], ActorApp = ''sigs'', ActorAddress = a\<rparr>),
      PrefixedKey = (\<lambda>app k. bytes_of_string app @ k),
      NameNonce = ''nonce'',
      GetSeqKey = (\<lambda>signers. concat (map ActorAddress signers)),
      BinaryBytes = sample_sequence_of,
      ValidateBasic = (\<lambda>t. None),
      SignBytes = sample_sequence_of,
      Sign = sample_Sign,
      ReadUint32 = sample_ReadUint32,
      StakeName = ''stake'',
      CandidatesPubKeysKey = [1],
      GetCandidateKey = (\<lambda>pk. case pk of PubKeyBytes b \<Rightarrow> 2 # b),
      GetDelegatorBondsKey = (\<lambda>a. 3 # ActorAddress a),
      ParseActor = (\<lambda>s. Inr \<lparr>ActorChainID = [], ActorApp = ''sigs'',
                                ActorAddress = bytes_of_string s\<rparr>),
      ChainAddr = (\<lambda>a. a),
      ReadPubKeys = (\<lambda>bs. Inr (map (\<lambda>b. PubKeyBytes [b]) bs)),
      ReadCandidate = (\<lambda>bs. Inl (ErrLib ''no candidate'')),
      ReadSlot = (\<lambda>bs. Inl (ErrLib ''no slot'')),
      ReadSlotDelegates = (\<lambda>bs. Inr [])\<rparr>"

definition sample_wallet :: Wallet where
  "sample_wallet =
     \<lparr>SignTx = (\<lambda>a t c. Inr \<lparr>signed_tx = t, signed_by = AccAddress a, signed_chain = c\<rparr>)\<rparr>"

definition sample_manager :: "string list \<Rightarrow> Manager" where
  "sample_manager known =
     \<lparr>Find = (\<lambda>a. if AccAddress a \<in> set (map bytes_of_string known) then Inr sample_wallet
                  else Inl (ErrLib ''unknown account''))\<rparr>"

definition sample_stake :: "bytes \<Rightarrow> string list \<Rightarrow> StakeRPCService" where
  "sample_stake stored known =
     \<lparr>backend = \<lparr>chainID = ''test-chain'', localClient = sample_client [] stored\<rparr>,
      am = sample_manager known\<rparr>"

text \<open>
  Surroundings of the init command in which nothing fails, the world before a first run
  and the world after the Tendermint part of it.
\<close>

definition sample_SetupGenesisBlock :: "ChainDb \<Rightarrow> Genesis \<Rightarrow> error + ChainDb \<times> bytes" where
  "sample_SetupGenesisBlock db g =
     (case db of
        ChainDb None \<Rightarrow> Inr (ChainDb (Some g), [7])
      | ChainDb (Some g') \<Rightarrow>
          if g' = g then Inr (db, [7]) else Inl (ErrLib ''genesis mismatch''))"

definition sample_env :: InitEnv where
  "sample_env =
     \<lparr>PrivValidatorFile = ''pv.json'',
      GenesisFile = ''genesis.json'',
      GetString = (\<lambda>k. if k = ''chain-id'' then ''local'' else []),
      FreshKey = (PubKeyBytes [1, 2, 3], [4, 5, 6]),
      SaveError = (\<lambda>p. None),
      ArgsFirst = [],
      ParseGenesisOrDefault =
        (\<lambda>p. Inr \<lparr>Config = Some \<lparr>ChainId = 1, OtherRules = []\<rparr>, Alloc = []\<rparr>),
      EthChainId = 111,
      MakeDataDir = ''data'',
      OpenDbError = (\<lambda>p. None),
      SetupGenesisBlock = sample_SetupGenesisBlock,
      MkdirAllError = (\<lambda>p. None),
      CreateError = (\<lambda>p. None),
      WriteError = (\<lambda>p. None),
      CloseError = (\<lambda>p. None)\<rparr>"

definition empty_world :: World where
  "empty_world = \<lparr>files = Map.empty, dirs = {}, databases = Map.empty\<rparr>"

definition initialized_world :: World where
  "initialized_world =
     \<lparr>files =
        [''pv.json'' \<mapsto>
           PrivValidatorJSON
             \<lparr>pv_PubKey = PubKeyBytes [1, 2, 3], pv_PrivKey = [4, 5, 6], pv_filePath = ''pv.json''\<rparr>,
         ''genesis.json'' \<mapsto>
           GenesisJSON
             \<lparr>ChainID = ''local'',
              Validators = [\<lparr>PubKey = PubKeyBytes [1, 2, 3], Power = 10\<rparr>]\<rparr>],
      dirs = {}, databases = Map.empty\<rparr>"

section \<open>Properties of the net service\<close>

lemma digit_char_is_digit: "d < 10 \<Longrightarrow> is_digit (digit_char d)"
  by (simp add: is_digit_def digit_char_def)

lemma digit_char_value: "d < 10 \<Longrightarrow> (of_char (digit_char d) :: nat) - 48 = d"
  by (simp add: digit_char_def)

lemma Sprintf_d_small: "n < 10 \<Longrightarrow> Sprintf_d n = [digit_char n]"
  by (subst Sprintf_d.simps) simp

lemma Sprintf_d_large:
  "\<not> n < 10 \<Longrightarrow> Sprintf_d n = Sprintf_d (n div 10) @ [digit_char (n mod 10)]"
  by (subst Sprintf_d.simps) simp

lemma Sprintf_d_nonempty: "Sprintf_d n \<noteq> []"
  by (cases "n < 10") (simp_all add: Sprintf_d_small Sprintf_d_large)

lemma Sprintf_d_digits: "list_all is_digit (Sprintf_d n)"
proof (induction n rule: Sprintf_d.induct)
  case (1 n)
  show ?case
  proof (cases "n < 10")
    case True
    then show ?thesis by (simp add: Sprintf_d_small digit_char_is_digit)
  next
    case False
    with 1 have "list_all is_digit (Sprintf_d (n div 10))" by simp
    moreover have "is_digit (digit_char (n mod 10))" by (simp add: digit_char_is_digit)
    ultimately show ?thesis using False by (simp add: Sprintf_d_large)
  qed
qed

lemma decimal_value_snoc:
  "decimal_value (cs @ [c]) = 10 * decimal_value cs + ((of_char c :: nat) - 48)"
  by (simp add: decimal_value_def)

lemma Sprintf_d_value: "decimal_value (Sprintf_d n) = n"
proof (induction n rule: Sprintf_d.induct)
  case (1 n)
  show ?case
  proof (cases "n < 10")
    case True
    then show ?thesis by (simp add: Sprintf_d_small decimal_value_def digit_char_value)
  next
    case False
    with 1 have ih: "decimal_value (Sprintf_d (n div 10)) = n div 10" by simp
    have "decimal_value (Sprintf_d n) = 10 * (n div 10) + n mod 10"
      using False ih by (simp add: Sprintf_d_large decimal_value_snoc digit_char_value)
    then show ?thesis by simp
  qed
qed

lemma digit_char_zero: "digit_char 0 = CHR ''0''"
  unfolding digit_char_def by code_simp

lemma digit_char_nonzero: "0 < d \<Longrightarrow> d < 10 \<Longrightarrow> is_nonzero_digit (digit_char d)"
  by (simp add: is_nonzero_digit_def digit_char_def)

lemma Sprintf_d_hd: "Sprintf_d n = ''0'' \<or> is_nonzero_digit (hd (Sprintf_d n))"
proof (induction n rule: Sprintf_d.induct)
  case (1 n)
  show ?case
  proof (cases "n < 10")
    case True
    show ?thesis
    proof (cases "n = 0")
      case True
      then show ?thesis by (simp add: Sprintf_d_small digit_char_zero)
    next
      case False
      with \<open>n < 10\<close> show ?thesis by (simp add: Sprintf_d_small digit_char_nonzero)
    qed
  next
    case False
    then have pos: "n div 10 \<noteq> 0" by simp
    have "Sprintf_d (n div 10) \<noteq> ''0''"
    proof
      assume "Sprintf_d (n div 10) = ''0''"
      then have "decimal_value (Sprintf_d (n div 10)) = 0" by (simp add: decimal_value_def)
      with pos show False by (simp add: Sprintf_d_value)
    qed
    with 1 False have "is_nonzero_digit (hd (Sprintf_d (n div 10)))" by blast
    moreover have "hd (Sprintf_d n) = hd (Sprintf_d (n div 10))"
      using False Sprintf_d_nonempty [of "n div 10"] by (simp add: Sprintf_d_large)
    ultimately show ?thesis by simp
  qed
qed

text \<open>
  Claim C8. The net service is constant: on every instance \<open>Listening\<close> answers true and
  \<open>PeerCount\<close> answers 0, and \<open>Version\<close> on a service constructed with a network version
  answers its decimal rendering: a nonempty string of digits, without a leading zero
  unless it is "0", that denotes the network version.
\<close>

theorem net_service_constant:
  "Listening s = True
   \<and> PeerCount s = 0
   \<and> Version (NewNetRPCService nv) = Sprintf_d (unat nv)
   \<and> list_all is_digit (Version (NewNetRPCService nv))
   \<and> decimal_value (Version (NewNetRPCService nv)) = unat nv
   \<and> (Version (NewNetRPCService nv) = ''0''
        \<or> is_nonzero_digit (hd (Version (NewNetRPCService nv))))"
  by (simp add: Listening_def PeerCount_def Version_def NewNetRPCService_def
        Sprintf_d_digits Sprintf_d_value Sprintf_d_hd)

section \<open>Properties of the cmt service\<close>

lemma GetTransactionFromBlock_in_range:
  assumes "Block (localClient (cmt_backend s)) (ToInt64 height) = Inr block"
    and "\<not> NumTxs block \<le>s index" and "go_index (Txs block) index = Some t"
  shows "GetTransactionFromBlock hx s height index
           = GetTransaction hx s (EncodeToString hx (TxHash hx t))"
  using assms by (simp add: GetTransactionFromBlock_def)

lemma GetTransactionFromBlock_too_large:
  assumes "Block (localClient (cmt_backend s)) (ToInt64 height) = Inr block"
    and "NumTxs block \<le>s index"
  shows "GetTransactionFromBlock hx s height index
           = Returns None (Some (ErrNoTransaction height index))"
  using assms by (simp add: GetTransactionFromBlock_def)

text \<open>
  Claim C7, at the index -1 of a block without transactions. The index is no position of
  the transaction list, and the call does not return a nil result with an error: the
  comparison with the transaction count lets a negative index through, and the indexing
  panics.
\<close>

theorem GetTransactionFromBlock_negative_index:
  "GetTransactionFromBlock sample_hex (sample_cmt []) 5 (- 1) = Panics
   \<and> go_index (Txs \<lparr>NumTxs = 0, Txs = []\<rparr>) (- 1 :: i64) = None"
  by (simp add: GetTransactionFromBlock_def sample_cmt_def sample_client_def
        NewCmtRPCService_def ToInt64_def go_index_def word_sle_eq)

section \<open>Properties of the submission methods\<close>

text \<open>
  Every submission method prepares the stake transaction of its arguments, wraps and
  signs it, and broadcasts it unless preparing failed.
\<close>

lemma submit_unfold:
  "submit lib s call =
     submit_prepared lib s
       (case stake_tx_of lib call of
          Inl err \<Rightarrow> Err err
        | Inr inner \<Rightarrow> wrapAndSignTx lib s inner (call_From call) (call_Sequence call))"
proof (cases call)
  case (CallDeclareCandidacy args)
  then show ?thesis
    by (cases "GetPubKey lib (PubKey_dc args)")
      (simp_all add: DeclareCandidacy_def prepareDeclareCandidacyTx_def)
next
  case (CallProposeSlot args)
  then show ?thesis
    by (cases "GetPubKey lib (PubKey_ps args)")
      (simp_all add: ProposeSlot_def prepareProposeSlotTx_def)
next
  case (CallAcceptSlot args)
  then show ?thesis by (simp add: AcceptSlot_def prepareAcceptSlotTx_def)
next
  case (CallWithdrawSlot args)
  then show ?thesis by (simp add: WithdrawSlot_def prepareWithdrawSlotTx_def)
next
  case (CallCancelSlot args)
  then show ?thesis
    by (cases "GetPubKey lib (PubKey_cs args)")
      (simp_all add: CancelSlot_def prepareCancelSlotTx_def)
qed

lemma sign_Ok:
  assumes "sign lib s d address = Ok d'"
  shows "\<exists>wallet stx.
           Find (am s) \<lparr>AccAddress = HexToAddress lib address\<rparr> = Inr wallet
           \<and> SignTx wallet \<lparr>AccAddress = HexToAddress lib address\<rparr>
                 (NewTransaction 0 (replicate 20 0) 0 0 0 (SignBytes lib d)) 15 = Inr stx
           \<and> Sign lib d stx = Inr d'"
  using assms by (auto simp: sign_def Let_def split: sum.splits)

lemma signTx_OneSig_Ok:
  assumes "signTx lib s (OneSig t sg) address = Ok d'"
  shows "ValidateBasic lib (OneSig t sg) = None \<and> address \<noteq> []
         \<and> sign lib s (OneSig t sg) address = Ok d'"
  using assms by (auto simp: signTx_def split: option.splits if_splits)

lemma wrapAndSignTx_Ok:
  assumes "wrapAndSignTx lib s t address sequence = Ok t'"
  shows "\<exists>sq. (if sequence = 0
               then \<exists>v. getSequence lib s [getSignerAct lib address] sequence = Inr v \<and> sq = v + 1
               else sq = sequence)
           \<and> chainID (backend s) \<noteq> []
           \<and> signTx lib s (wrapped_tx lib s address sq t) address = Ok t'"
  using assms
  by (auto simp: wrapAndSignTx_def wrapped_tx_def getChainID_def getSignerAct_def Let_def
      split: sum.splits if_splits)


lemma getSequence_Inr:
  assumes "getSequence lib s signers sequence = Inr v"
  shows "\<exists>resp. ABCIQuery (localClient (backend s)) ''/key''
                  (PrefixedKey lib (NameNonce lib) (GetSeqKey lib signers)) = Inr resp
           \<and> (if RespValue resp = [] then v = sequence
               else ReadUint32 lib (RespValue resp) = Inr v)"
  using assms by (auto simp: getSequence_def Let_def split: sum.splits if_splits)

lemma submit_sent:
  assumes "submit lib s call = (sent, out)" and "sent \<noteq> []"
  shows "\<exists>inner t'. stake_tx_of lib call = Inr inner
           \<and> wrapAndSignTx lib s inner (call_From call) (call_Sequence call) = Ok t'
           \<and> sent = [BinaryBytes lib t']
           \<and> out = Returns (fst (BroadcastTxCommit (localClient (backend s)) (BinaryBytes lib t')))
                            (snd (BroadcastTxCommit (localClient (backend s)) (BinaryBytes lib t')))"
  using assms unfolding submit_unfold
  by (auto simp: submit_prepared_def broadcastTx_def Let_def split: sum.splits res.splits prod.splits)

lemma submit_no_error_sent:
  assumes "submit lib s call = (sent, Returns r None)"
  shows "sent \<noteq> []"
  using assms unfolding submit_unfold
  by (auto simp: submit_prepared_def broadcastTx_def Let_def split: sum.splits res.splits prod.splits)

lemma submit_prepare_error:
  assumes "(case stake_tx_of lib call of
              Inl err \<Rightarrow> Err err
            | Inr inner \<Rightarrow> wrapAndSignTx lib s inner (call_From call) (call_Sequence call)) = Err e"
  shows "submit lib s call = ([], Returns None (Some e))"
  using assms unfolding submit_unfold by (simp add: submit_prepared_def)

lemma sample_find:
  "Find (am (sample_stake stored [''0xabc''])) \<lparr>AccAddress = HexToAddress sample_lib ''0xabc''\<rparr>
     = Inr sample_wallet"
  by (simp add: sample_stake_def sample_manager_def sample_lib_def)

lemma sample_submit_declare:
  "submit sample_lib (sample_stake [] [''0xabc''])
     (CallDeclareCandidacy \<lparr>Sequence_dc = 5, From_dc = ''0xabc'', PubKey_dc = ''pk''\<rparr>)
   = ([[5]], Returns (Some \<lparr>CommitHash = [5], CommitHeight = 8\<rparr>) None)"
  by (simp add: DeclareCandidacy_def prepareDeclareCandidacyTx_def submit_prepared_def
      wrapAndSignTx_def getChainID_def getSignerAct_def signTx_def sign_def broadcastTx_def
      sample_lib_def sample_stake_def sample_manager_def sample_wallet_def sample_client_def
      Let_def)

lemma sample_submit_accept:
  "submit sample_lib (sample_stake [4] [''0xabc''])
     (CallAcceptSlot \<lparr>Sequence_as = 0, From_as = ''0xabc'', Amount_as = 10, SlotId_as = ''s1''\<rparr>)
   = ([[5]], Returns (Some \<lparr>CommitHash = [5], CommitHeight = 8\<rparr>) None)"
  by (simp add: AcceptSlot_def prepareAcceptSlotTx_def submit_prepared_def
      wrapAndSignTx_def getChainID_def getSignerAct_def signTx_def sign_def broadcastTx_def
      getSequence_def
      sample_lib_def sample_stake_def sample_manager_def sample_wallet_def sample_client_def
      Let_def)

text \<open>
  Claim C1. When a submission method (DeclareCandidacy, ProposeSlot, AcceptSlot,
  WithdrawSlot, CancelSlot) returns without error, it has handed one byte string to
  \<open>BroadcastTxCommit\<close>: the serialization by \<open>BinaryBytes\<close> of the stake transaction of
  its arguments, wrapped in a nonce transaction whose signers are the one actor of the
  From address, then in a chain transaction with the backend's chain id and expiration
  height 0, then in a signature wrapper, as that wrapper is after \<open>Sign\<close> with the
  signature that the wallet of the From address made over its sign bytes.
\<close>

theorem submit_broadcasts_signed_wrapping:
  assumes "submit lib s call = (sent, Returns r None)"
  shows "\<exists>inner sq wallet stx t'.
           stake_tx_of lib call = Inr inner
           \<and> Find (am s) \<lparr>AccAddress = HexToAddress lib (call_From call)\<rparr> = Inr wallet
           \<and> SignTx wallet \<lparr>AccAddress = HexToAddress lib (call_From call)\<rparr>
                 (NewTransaction 0 (replicate 20 0) 0 0 0
                    (SignBytes lib
                       (OneSig (ChainTx (chainID (backend s)) 0
                          (NonceTx sq [getSignerAct lib (call_From call)] inner)) None)))
                 15 = Inr stx
           \<and> Sign lib
                 (OneSig (ChainTx (chainID (backend s)) 0
                    (NonceTx sq [getSignerAct lib (call_From call)] inner)) None)
                 stx = Inr t'
           \<and> sent = [BinaryBytes lib t']
           \<and> BroadcastTxCommit (localClient (backend s)) (BinaryBytes lib t') = (r, None)"
proof -
  have ne: "sent \<noteq> []" using assms by (rule submit_no_error_sent)
  from submit_sent [OF assms ne] obtain inner t' where
    inner: "stake_tx_of lib call = Inr inner"
    and w: "wrapAndSignTx lib s inner (call_From call) (call_Sequence call) = Ok t'"
    and sent: "sent = [BinaryBytes lib t']"
    and out: "Returns r None =
        Returns (fst (BroadcastTxCommit (localClient (backend s)) (BinaryBytes lib t')))
                (snd (BroadcastTxCommit (localClient (backend s)) (BinaryBytes lib t')))"
    by blast
  from wrapAndSignTx_Ok [OF w] obtain sq where
    st: "signTx lib s (wrapped_tx lib s (call_From call) sq inner) (call_From call) = Ok t'"
    by blast
  let ?u = "OneSig (ChainTx (chainID (backend s)) 0
              (NonceTx sq [getSignerAct lib (call_From call)] inner)) None"
  have u: "wrapped_tx lib s (call_From call) sq inner = ?u"
    by (simp add: wrapped_tx_def getSignerAct_def)
  from st have "sign lib s ?u (call_From call) = Ok t'"
    unfolding u by (rule signTx_OneSig_Ok [THEN conjunct2, THEN conjunct2])
  from sign_Ok [OF this] obtain wallet stx where
    "Find (am s) \<lparr>AccAddress = HexToAddress lib (call_From call)\<rparr> = Inr wallet"
    "SignTx wallet \<lparr>AccAddress = HexToAddress lib (call_From call)\<rparr>
        (NewTransaction 0 (replicate 20 0) 0 0 0 (SignBytes lib ?u)) 15 = Inr stx"
    "Sign lib ?u stx = Inr t'"
    by blast
  moreover from out have
    "BroadcastTxCommit (localClient (backend s)) (BinaryBytes lib t') = (r, None)"
    by (simp add: prod_eq_iff)
  ultimately show ?thesis using inner sent by blast
qed

theorem submit_broadcasts_signed_wrapping_witness:
  "submit sample_lib (sample_stake [] [''0xabc''])
     (CallDeclareCandidacy \<lparr>Sequence_dc = 5, From_dc = ''0xabc'', PubKey_dc = ''pk''\<rparr>)
   = ([[5]], Returns (Some \<lparr>CommitHash = [5], CommitHeight = 8\<rparr>) None)
   \<and> (\<exists>inner sq wallet stx t'.
         stake_tx_of sample_lib
           (CallDeclareCandidacy \<lparr>Sequence_dc = 5, From_dc = ''0xabc'', PubKey_dc = ''pk''\<rparr>)
           = Inr inner
         \<and> Find (am (sample_stake [] [''0xabc'']))
               \<lparr>AccAddress = HexToAddress sample_lib ''0xabc''\<rparr> = Inr wallet
         \<and> SignTx wallet \<lparr>AccAddress = HexToAddress sample_lib ''0xabc''\<rparr>
               (NewTransaction 0 (replicate 20 0) 0 0 0
                  (SignBytes sample_lib
                     (OneSig (ChainTx ''test-chain'' 0
                        (NonceTx sq [getSignerAct sample_lib ''0xabc''] inner)) None)))
               15 = Inr stx
         \<and> Sign sample_lib
               (OneSig (ChainTx ''test-chain'' 0
                  (NonceTx sq [getSignerAct sample_lib ''0xabc''] inner)) None)
               stx = Inr t'
         \<and> [[5]] = [BinaryBytes sample_lib t']
         \<and> BroadcastTxCommit (localClient (backend (sample_stake [] [''0xabc''])))
               (BinaryBytes sample_lib t')
             = (Some \<lparr>CommitHash = [5], CommitHeight = 8\<rparr>, None))"
proof -
  have h: "submit sample_lib (sample_stake [] [''0xabc''])
             (CallDeclareCandidacy \<lparr>Sequence_dc = 5, From_dc = ''0xabc'', PubKey_dc = ''pk''\<rparr>)
           = ([[5]], Returns (Some \<lparr>CommitHash = [5], CommitHeight = 8\<rparr>) None)"
    by (rule sample_submit_declare)
  have c: "chainID (backend (sample_stake [] [''0xabc''])) = ''test-chain''"
    by (simp add: sample_stake_def)
  show ?thesis
    using h submit_broadcasts_signed_wrapping [OF h] by (simp add: c)
qed

text \<open>
  Claim C10. When a submission method broadcasts, the nonce transaction inside the signed
  wrapper carries this sequence: for a request with Sequence 0, the value stored under
  the nonce key of the signer plus 1 (in \<open>uint32\<close> arithmetic), or 1 when the store answers
  with no value; for a request with another Sequence, that value unchanged.
\<close>

theorem submit_nonce_sequence:
  assumes "submit lib s call = (sent, out)" and "sent \<noteq> []"
  shows "\<exists>inner sq stx t'.
           stake_tx_of lib call = Inr inner
           \<and> Sign lib (wrapped_tx lib s (call_From call) sq inner) stx = Inr t'
           \<and> sent = [BinaryBytes lib t']
           \<and> nonce_sequence (wrapped_tx lib s (call_From call) sq inner) = Some sq
           \<and> (if call_Sequence call = 0
               then \<exists>resp.
                      ABCIQuery (localClient (backend s)) ''/key''
                        (PrefixedKey lib (NameNonce lib)
                           (GetSeqKey lib [getSignerAct lib (call_From call)])) = Inr resp
                      \<and> (if RespValue resp = [] then sq = 1
                          else \<exists>v. ReadUint32 lib (RespValue resp) = Inr v \<and> sq = v + 1)
               else sq = call_Sequence call)"
proof -
  from submit_sent [OF assms] obtain inner t' where
    inner: "stake_tx_of lib call = Inr inner"
    and w: "wrapAndSignTx lib s inner (call_From call) (call_Sequence call) = Ok t'"
    and sent: "sent = [BinaryBytes lib t']"
    by blast
  from wrapAndSignTx_Ok [OF w] obtain sq where
    sq: "if call_Sequence call = 0
         then \<exists>v. getSequence lib s [getSignerAct lib (call_From call)] (call_Sequence call) = Inr v
                  \<and> sq = v + 1
         else sq = call_Sequence call"
    and st: "signTx lib s (wrapped_tx lib s (call_From call) sq inner) (call_From call) = Ok t'"
    by blast
  from st have "sign lib s (wrapped_tx lib s (call_From call) sq inner) (call_From call) = Ok t'"
    unfolding wrapped_tx_def by (rule signTx_OneSig_Ok [THEN conjunct2, THEN conjunct2])
  from sign_Ok [OF this] obtain stx where
    sg: "Sign lib (wrapped_tx lib s (call_From call) sq inner) stx = Inr t'"
    by blast
  have ns: "nonce_sequence (wrapped_tx lib s (call_From call) sq inner) = Some sq"
    by (simp add: wrapped_tx_def)
  have "if call_Sequence call = 0
        then \<exists>resp.
               ABCIQuery (localClient (backend s)) ''/key''
                 (PrefixedKey lib (NameNonce lib)
                    (GetSeqKey lib [getSignerAct lib (call_From call)])) = Inr resp
               \<and> (if RespValue resp = [] then sq = 1
                   else \<exists>v. ReadUint32 lib (RespValue resp) = Inr v \<and> sq = v + 1)
        else sq = call_Sequence call"
  proof (cases "call_Sequence call = 0")
    case True
    with sq obtain v where
      v: "getSequence lib s [getSignerAct lib (call_From call)] 0 = Inr v" and "sq = v + 1"
      by auto
    from getSequence_Inr [OF v] obtain resp where
      "ABCIQuery (localClient (backend s)) ''/key''
         (PrefixedKey lib (NameNonce lib)
            (GetSeqKey lib [getSignerAct lib (call_From call)])) = Inr resp"
      "if RespValue resp = [] then v = 0 else ReadUint32 lib (RespValue resp) = Inr v"
      by blast
    with True \<open>sq = v + 1\<close> show ?thesis by (auto split: if_splits)
  next
    case False
    with sq show ?thesis by simp
  qed
  with inner sg sent ns show ?thesis by blast
qed

theorem submit_nonce_sequence_witness:
  "submit sample_lib (sample_stake [4] [''0xabc''])
     (CallAcceptSlot \<lparr>Sequence_as = 0, From_as = ''0xabc'', Amount_as = 10, SlotId_as = ''s1''\<rparr>)
   = ([[5]], Returns (Some \<lparr>CommitHash = [5], CommitHeight = 8\<rparr>) None)
   \<and> [[5 :: 8 word]] \<noteq> []
   \<and> (\<exists>inner sq stx t'.
         stake_tx_of sample_lib
           (CallAcceptSlot \<lparr>Sequence_as = 0, From_as = ''0xabc'', Amount_as = 10, SlotId_as = ''s1''\<rparr>)
           = Inr inner
         \<and> Sign sample_lib (wrapped_tx sample_lib (sample_stake [4] [''0xabc'']) ''0xabc'' sq inner)
               stx = Inr t'
         \<and> [[5]] = [BinaryBytes sample_lib t']
         \<and> nonce_sequence (wrapped_tx sample_lib (sample_stake [4] [''0xabc'']) ''0xabc'' sq inner)
             = Some sq
         \<and> (\<exists>resp.
               ABCIQuery (localClient (backend (sample_stake [4] [''0xabc'']))) ''/key''
                 (PrefixedKey sample_lib (NameNonce sample_lib)
                    (GetSeqKey sample_lib [getSignerAct sample_lib ''0xabc''])) = Inr resp
               \<and> (if RespValue resp = [] then sq = 1
                   else \<exists>v. ReadUint32 sample_lib (RespValue resp) = Inr v \<and> sq = v + 1)))"
proof -
  have h: "submit sample_lib (sample_stake [4] [''0xabc''])
     (CallAcceptSlot \<lparr>Sequence_as = 0, From_as = ''0xabc'', Amount_as = 10, SlotId_as = ''s1''\<rparr>)
   = ([[5]], Returns (Some \<lparr>CommitHash = [5], CommitHeight = 8\<rparr>) None)"
    by (rule sample_submit_accept)
  have ne: "[[5 :: 8 word]] \<noteq> []" by simp
  show ?thesis
    using h submit_nonce_sequence [OF h ne] by simp
qed

text \<open>
  Claim C2, at a request from an address that no wallet of the account manager holds.
  Preparing the transaction fails at signing, and the method does not return a nil result
  with the error of \<open>Find\<close>: it panics. Nothing is broadcast.
\<close>

theorem submit_unknown_account_panics:
  "submit sample_lib (sample_stake [] [])
     (CallAcceptSlot \<lparr>Sequence_as = 1, From_as = ''0xabc'', Amount_as = 10, SlotId_as = ''s1''\<rparr>)
   = ([], Panics)
   \<and> Find (am (sample_stake [] [])) \<lparr>AccAddress = HexToAddress sample_lib ''0xabc''\<rparr>
       = Inl (ErrLib ''unknown account'')"
  by (simp add: AcceptSlot_def prepareAcceptSlotTx_def submit_prepared_def
      wrapAndSignTx_def getChainID_def getSignerAct_def signTx_def sign_def broadcastTx_def
      sample_lib_def sample_stake_def sample_manager_def sample_wallet_def sample_client_def
      Let_def)

section \<open>Properties of the query methods\<close>

text \<open>
  Every query method builds its key, asks the store through \<open>getParsed\<close> and puts the
  height and the decoded value into the envelope.
\<close>

lemma getParsed_map_sum:
  "getParsed s path key (\<lambda>bs. map_sum id f (rd bs)) height
     = map_sum id (\<lambda>(h, d). (h, f d)) (getParsed s path key rd height)"
  by (cases "rd (fst (get s path key (ToInt64 height)))")
     (auto simp: getParsed_def split: prod.splits option.splits sum.splits)

lemma query_unfold:
  "query lib s c =
     (case query_key lib c of
        Inl err \<Rightarrow> Returns None (Some err)
      | Inr key \<Rightarrow>
          (case getParsed s (query_path c) key (query_decode lib c) (query_height c) of
             Inl err \<Rightarrow> Returns None (Some err)
           | Inr (h, d) \<Rightarrow> Returns (Some \<lparr>Height = h, Data = d\<rparr>) None))"
proof (cases c)
  case (CallQueryValidators height)
  have "query_decode lib c = (\<lambda>bs. map_sum id PubKeys (ReadPubKeys lib bs))"
    using CallQueryValidators by (simp add: fun_eq_iff)
  then show ?thesis using CallQueryValidators
    by (simp add: QueryValidators_def getParsed_map_sum Let_def split: sum.splits)
next
  case (CallQueryValidator pubkey height)
  have "query_decode lib c = (\<lambda>bs. map_sum id CandidateData (ReadCandidate lib bs))"
    using CallQueryValidator by (simp add: fun_eq_iff)
  then show ?thesis using CallQueryValidator
    by (simp add: QueryValidator_def getParsed_map_sum Let_def split: sum.splits)
next
  case (CallQuerySlots address height)
  have "query_decode lib c = (\<lambda>bs. map_sum id PubKeys (ReadPubKeys lib bs))"
    using CallQuerySlots by (simp add: fun_eq_iff)
  then show ?thesis using CallQuerySlots
    by (simp add: QuerySlots_def getParsed_map_sum Let_def split: sum.splits)
next
  case (CallQuerySlot slotId height)
  have "query_decode lib c = (\<lambda>bs. map_sum id SlotData (ReadSlot lib bs))"
    using CallQuerySlot by (simp add: fun_eq_iff)
  then show ?thesis using CallQuerySlot
    by (simp add: QuerySlot_def getParsed_map_sum Let_def split: sum.splits)
next
  case (CallQueryDelegator address height)
  have "query_decode lib c = (\<lambda>bs. map_sum id SlotDelegates (ReadSlotDelegates lib bs))"
    using CallQueryDelegator by (simp add: fun_eq_iff)
  then show ?thesis using CallQueryDelegator
    by (simp add: QueryDelegator_def getParsed_map_sum Let_def split: sum.splits)
qed

lemma getParsed_Inr:
  assumes "getParsed s path key rd height = Inr (h, d)"
  shows "\<exists>resp. ABCIQueryWithOptions (localClient (backend s)) path key
                  \<lparr>Trusted = True, OptHeight = ToInt64 height\<rparr> = (Some resp, None)
           \<and> RespValue resp \<noteq> [] \<and> rd (RespValue resp) = Inr d \<and> h = RespHeight resp"
  using assms
  by (auto simp: getParsed_def get_def Let_def split: prod.splits option.splits sum.splits if_splits)

lemma getParsed_no_data:
  assumes "ABCIQueryWithOptions (localClient (backend s)) path key
             \<lparr>Trusted = True, OptHeight = ToInt64 height\<rparr> = (Some resp, None)"
    and "RespValue resp = []"
  shows "getParsed s path key rd height = Inl ErrNoData"
  using assms by (simp add: getParsed_def get_def Let_def)

lemma sample_query_validators:
  "query sample_lib (sample_stake [9] []) (CallQueryValidators 3)
     = Returns (Some \<lparr>Height = 7, Data = PubKeys [PubKeyBytes [9]]\<rparr>) None"
  by (simp add: QueryValidators_def getParsed_def get_def sample_lib_def sample_stake_def
      sample_client_def Let_def)

text \<open>
  Claim C5. When a query method (QueryValidators, QueryValidator, QuerySlots, QuerySlot,
  QueryDelegator) returns without error, its result is an envelope whose Height is the
  height of the response to the ABCI query and whose Data is the payload decoded from the
  value bytes of that response.
\<close>

theorem query_result_envelope:
  assumes "query lib s c = Returns r None"
  shows "\<exists>key resp d.
           query_key lib c = Inr key
           \<and> ABCIQueryWithOptions (localClient (backend s)) (query_path c) key
                 \<lparr>Trusted = True, OptHeight = ToInt64 (query_height c)\<rparr> = (Some resp, None)
           \<and> RespValue resp \<noteq> []
           \<and> query_decode lib c (RespValue resp) = Inr d
           \<and> r = Some \<lparr>Height = RespHeight resp, Data = d\<rparr>"
proof -
  from assms obtain key h d where
    key: "query_key lib c = Inr key"
    and gp: "getParsed s (query_path c) key (query_decode lib c) (query_height c) = Inr (h, d)"
    and r: "r = Some \<lparr>Height = h, Data = d\<rparr>"
    unfolding query_unfold by (auto split: sum.splits)
  from getParsed_Inr [OF gp] r key show ?thesis by blast
qed

theorem query_result_envelope_witness:
  "query sample_lib (sample_stake [9] []) (CallQueryValidators 3)
     = Returns (Some \<lparr>Height = 7, Data = PubKeys [PubKeyBytes [9]]\<rparr>) None
   \<and> (\<exists>key resp d.
         query_key sample_lib (CallQueryValidators 3) = Inr key
         \<and> ABCIQueryWithOptions (localClient (backend (sample_stake [9] []))) ''/key'' key
               \<lparr>Trusted = True, OptHeight = ToInt64 3\<rparr> = (Some resp, None)
         \<and> RespValue resp \<noteq> []
         \<and> query_decode sample_lib (CallQueryValidators 3) (RespValue resp) = Inr d
         \<and> Some \<lparr>Height = 7, Data = PubKeys [PubKeyBytes [9]]\<rparr>
             = Some \<lparr>Height = RespHeight resp, Data = d\<rparr>)"
proof -
  have h: "query sample_lib (sample_stake [9] []) (CallQueryValidators 3)
             = Returns (Some \<lparr>Height = 7, Data = PubKeys [PubKeyBytes [9]]\<rparr>) None"
    by (rule sample_query_validators)
  show ?thesis
    using h query_result_envelope [OF h] by simp
qed

text \<open>
  Claim C6. When the ABCI query of a query method answers without error and with an empty
  value, the method returns a nil result and the no-data error.
\<close>

theorem query_no_data:
  assumes "query_key lib c = Inr key"
    and "ABCIQueryWithOptions (localClient (backend s)) (query_path c) key
           \<lparr>Trusted = True, OptHeight = ToInt64 (query_height c)\<rparr> = (Some resp, None)"
    and "RespValue resp = []"
  shows "query lib s c = Returns None (Some ErrNoData)"
  unfolding query_unfold
  using assms(1) getParsed_no_data [OF assms(2) assms(3), of "query_decode lib c"] by simp

theorem query_no_data_witness:
  "query_key sample_lib (CallQuerySlot ''s1'' 3) = Inr (bytes_of_string ''s1'')
   \<and> ABCIQueryWithOptions (localClient (backend (sample_stake [] []))) ''/slot''
         (bytes_of_string ''s1'') \<lparr>Trusted = True, OptHeight = ToInt64 3\<rparr>
       = (Some \<lparr>RespValue = [], RespHeight = 7\<rparr>, None)
   \<and> RespValue \<lparr>RespValue = [], RespHeight = 7\<rparr> = []
   \<and> query sample_lib (sample_stake [] []) (CallQuerySlot ''s1'' 3)
       = Returns None (Some ErrNoData)"
proof -
  have k: "query_key sample_lib (CallQuerySlot ''s1'' 3) = Inr (bytes_of_string ''s1'')"
    by simp
  have q: "ABCIQueryWithOptions (localClient (backend (sample_stake [] [])))
             (query_path (CallQuerySlot ''s1'' 3)) (bytes_of_string ''s1'')
             \<lparr>Trusted = True, OptHeight = ToInt64 (query_height (CallQuerySlot ''s1'' 3))\<rparr>
           = (Some \<lparr>RespValue = [], RespHeight = 7\<rparr>, None)"
    by (simp add: sample_stake_def sample_client_def)
  have v: "RespValue \<lparr>RespValue = [], RespHeight = 7\<rparr> = []" by simp
  show ?thesis
    using k q v query_no_data [OF k q v] by simp
qed

section \<open>Properties of the init command\<close>

text \<open>What the Tendermint part does on a fresh home, and the ways it can end.\<close>

lemma initTendermint_fresh:
  assumes "files w (PrivValidatorFile env) = None" and "files w (GenesisFile env) = None"
    and "PrivValidatorFile env \<noteq> GenesisFile env"
    and "SaveError env (PrivValidatorFile env) = None" and "SaveError env (GenesisFile env) = None"
  shows "initTendermint env w =
           (Finished None,
            w\<lparr>files := (files w)
                 (PrivValidatorFile env \<mapsto>
                    PrivValidatorJSON (GenPrivValidatorFS env (PrivValidatorFile env)),
                  GenesisFile env \<mapsto>
                    GenesisJSON \<lparr>ChainID = GetString env FlagChainID,
                                 Validators = [\<lparr>PubKey = fst (FreshKey env), Power = 10\<rparr>]\<rparr>)\<rparr>)"
  using assms
  by (simp add: initTendermint_def FileExists_def Save_def SaveAs_def GenPrivValidatorFS_def
      GetPubKey_pv_def Let_def)

lemma initTendermint_cases:
  assumes "initTendermint env w = (st, w')"
  shows "(st = RunExits \<and> w' = w \<and> FileExists w (PrivValidatorFile env)
            \<and> LoadPrivValidatorFS w (PrivValidatorFile env) = None)
       \<or> (st = RunPanics \<and> w' = w \<and> \<not> FileExists w (PrivValidatorFile env))
       \<or> (\<exists>pv w1.
             (if FileExists w (PrivValidatorFile env)
              then LoadPrivValidatorFS w (PrivValidatorFile env) = Some pv \<and> w1 = w
              else pv = GenPrivValidatorFS env (PrivValidatorFile env)
                   \<and> SaveError env (PrivValidatorFile env) = None
                   \<and> w1 = w\<lparr>files := (files w)(PrivValidatorFile env \<mapsto> PrivValidatorJSON pv)\<rparr>)
             \<and> (if FileExists w1 (GenesisFile env) then st = Finished None \<and> w' = w1
                 else (st = RunPanics \<and> w' = w1)
                    \<or> (st = Finished None
                        \<and> w' = w1\<lparr>files := (files w1)
                              (GenesisFile env \<mapsto>
                                 GenesisJSON \<lparr>ChainID = GetString env FlagChainID,
                                   Validators = [\<lparr>PubKey = GetPubKey_pv pv, Power = 10\<rparr>]\<rparr>)\<rparr>)))"
  using assms
  by (auto simp: initTendermint_def Save_def SaveAs_def GenPrivValidatorFS_def Let_def
      split: if_splits option.splits sum.splits)

lemma GenPrivValidatorFS_filePath: "pv_filePath (GenPrivValidatorFS env path) = path"
  by (simp add: GenPrivValidatorFS_def)

lemma LoadPrivValidatorFS_frame:
  "p \<noteq> path \<Longrightarrow>
   LoadPrivValidatorFS (w\<lparr>files := (files w)(p \<mapsto> c)\<rparr>) path = LoadPrivValidatorFS w path"
  by (simp add: LoadPrivValidatorFS_def)

lemma LoadPrivValidatorFS_saved:
  "LoadPrivValidatorFS (w\<lparr>files := (files w)(path \<mapsto> PrivValidatorJSON pv)\<rparr>) path
     = Some (pv\<lparr>pv_filePath := path\<rparr>)"
  by (simp add: LoadPrivValidatorFS_def)

lemma initTendermint_both_exist:
  assumes "LoadPrivValidatorFS w (PrivValidatorFile env) = Some pv"
    and "FileExists w (GenesisFile env)"
  shows "initTendermint env w = (Finished None, w)"
proof -
  from assms(1) have "FileExists w (PrivValidatorFile env)"
    by (auto simp: LoadPrivValidatorFS_def FileExists_def split: option.splits)
  with assms show ?thesis by (simp add: initTendermint_def Let_def)
qed

lemma seedKeystore_one:
  assumes "CreateError env (Join dir name) = None" and "WriteError env (Join dir name) = None"
    and "CloseError env (Join dir name) = None"
  shows "seedKeystore env dir [(name, content)] w
           = (Finished None, w\<lparr>files := (files w)(Join dir name \<mapsto> RawBytes content)\<rparr>)"
  using assms by (simp add: Create_def Write_def Let_def)

lemma initEthermint_fresh:
  assumes "databases w (chaindata_path env) = None"
    and "ParseGenesisOrDefault env (ArgsFirst env) = Inr g" and "Config g = Some cfg"
    and "OpenDbError env (chaindata_path env) = None"
    and "SetupGenesisBlock env (ChainDb None)
           (g\<lparr>Config := Some (cfg\<lparr>ChainId := uint (EthChainId env)\<rparr>)\<rparr>) = Inr (db, hash)"
    and "MkdirAllError env (keystore_dir env) = None"
    and "CreateError env (keystore_file env) = None"
    and "WriteError env (keystore_file env) = None"
    and "CloseError env (keystore_file env) = None"
  shows "initEthermint env w
           = (Finished None,
              w\<lparr>databases := (databases w)(chaindata_path env \<mapsto> db),
                dirs := insert (keystore_dir env) (dirs w),
                files := (files w)(keystore_file env \<mapsto> RawBytes keystore_content)\<rparr>)"
proof -
  have ks: "keystore_file env
              = Join (keystore_dir env)
                  ''UTC--2016-10-21T22-30-03.071787745Z--7eff122b94897ea5b0e2a9abf47b86337fafebdc''"
    by (simp add: keystore_file_def)
  have seed: "\<And>w0. seedKeystore env (keystore_dir env) keystoreFilesMap w0
           = (Finished None,
              w0\<lparr>files := (files w0)(keystore_file env \<mapsto> RawBytes keystore_content)\<rparr>)"
    unfolding keystoreFilesMap_def ks
    using assms(7-9) unfolding ks by (rule seedKeystore_one)
  show ?thesis
    using assms(1-6)
    by (simp add: initEthermint_def NewLDBDatabase_def MkdirAll_def Let_def seed
        chaindata_path_def [symmetric] keystore_dir_def [symmetric])
qed

lemma sample_keystore_file:
  "keystore_file sample_env
     = ''data/keystore/UTC--2016-10-21T22-30-03.071787745Z--7eff122b94897ea5b0e2a9abf47b86337fafebdc''"
  by (simp add: keystore_file_def keystore_dir_def Join_def sample_env_def)

lemma sample_first_run:
  "initTendermint sample_env empty_world = (Finished None, initialized_world)"
proof -
  have "initTendermint sample_env empty_world =
           (Finished None,
            empty_world\<lparr>files := (files empty_world)
                 (PrivValidatorFile sample_env \<mapsto>
                    PrivValidatorJSON (GenPrivValidatorFS sample_env (PrivValidatorFile sample_env)),
                  GenesisFile sample_env \<mapsto>
                    GenesisJSON \<lparr>ChainID = GetString sample_env FlagChainID,
                                 Validators = [\<lparr>PubKey = fst (FreshKey sample_env), Power = 10\<rparr>]\<rparr>)\<rparr>)"
    by (rule initTendermint_fresh) (simp_all add: sample_env_def empty_world_def)
  then show ?thesis
    by (simp add: sample_env_def empty_world_def initialized_world_def GenPrivValidatorFS_def
        FlagChainID_def)
qed

text \<open>
  Claim C4. The init command has the flag \<open>chain-id\<close> with the default value "local".
  When no genesis file exists yet (and the private validator file is another path) and
  the Tendermint part returns, the genesis file holds a genesis document whose ChainID is
  the value of the flag and whose validators are exactly one validator, with the public
  key of the private validator (the one loaded when its file exists, the one generated
  otherwise) and power 10.
\<close>

theorem initTendermint_genesis_doc:
  assumes "\<not> FileExists w (GenesisFile env)"
    and "PrivValidatorFile env \<noteq> GenesisFile env"
    and "initTendermint env w = (Finished None, w')"
  shows "Flags GetInitCmd
           = [\<lparr>flag_name = ''chain-id'', flag_default = ''local'', flag_usage = ''Chain ID''\<rparr>]
         \<and> FlagChainID = ''chain-id''
         \<and> (\<exists>pv. (if FileExists w (PrivValidatorFile env)
                   then LoadPrivValidatorFS w (PrivValidatorFile env) = Some pv
                   else pv = GenPrivValidatorFS env (PrivValidatorFile env))
                \<and> files w' (GenesisFile env)
                    = Some (GenesisJSON
                        \<lparr>ChainID = GetString env FlagChainID,
                         Validators = [\<lparr>PubKey = GetPubKey_pv pv, Power = 10\<rparr>]\<rparr>))"
proof -
  have flags: "Flags GetInitCmd
           = [\<lparr>flag_name = ''chain-id'', flag_default = ''local'', flag_usage = ''Chain ID''\<rparr>]"
    by (simp add: GetInitCmd_def FlagChainID_def)
  from initTendermint_cases [OF assms(3)] obtain pv w1 where
    pv: "if FileExists w (PrivValidatorFile env)
         then LoadPrivValidatorFS w (PrivValidatorFile env) = Some pv \<and> w1 = w
         else pv = GenPrivValidatorFS env (PrivValidatorFile env)
              \<and> SaveError env (PrivValidatorFile env) = None
              \<and> w1 = w\<lparr>files := (files w)(PrivValidatorFile env \<mapsto> PrivValidatorJSON pv)\<rparr>"
    and gen: "if FileExists w1 (GenesisFile env) then w' = w1
              else w' = w1\<lparr>files := (files w1)
                         (GenesisFile env \<mapsto>
                            GenesisJSON \<lparr>ChainID = GetString env FlagChainID,
                              Validators = [\<lparr>PubKey = GetPubKey_pv pv, Power = 10\<rparr>]\<rparr>)\<rparr>"
    by (auto split: if_splits)
  from pv assms(1,2) have "\<not> FileExists w1 (GenesisFile env)"
    by (auto simp: FileExists_def split: if_splits)
  with gen have "files w' (GenesisFile env)
                   = Some (GenesisJSON
                        \<lparr>ChainID = GetString env FlagChainID,
                         Validators = [\<lparr>PubKey = GetPubKey_pv pv, Power = 10\<rparr>]\<rparr>)"
    by simp
  moreover from pv have "if FileExists w (PrivValidatorFile env)
                   then LoadPrivValidatorFS w (PrivValidatorFile env) = Some pv
                   else pv = GenPrivValidatorFS env (PrivValidatorFile env)"
    by (simp split: if_splits)
  ultimately show ?thesis using flags by (auto simp: FlagChainID_def)
qed

theorem initTendermint_genesis_doc_witness:
  "\<not> FileExists empty_world (GenesisFile sample_env)
   \<and> PrivValidatorFile sample_env \<noteq> GenesisFile sample_env
   \<and> initTendermint sample_env empty_world = (Finished None, initialized_world)
   \<and> Flags GetInitCmd
       = [\<lparr>flag_name = ''chain-id'', flag_default = ''local'', flag_usage = ''Chain ID''\<rparr>]
   \<and> (\<exists>pv. pv = GenPrivValidatorFS sample_env (PrivValidatorFile sample_env)
          \<and> files initialized_world (GenesisFile sample_env)
              = Some (GenesisJSON
                  \<lparr>ChainID = GetString sample_env FlagChainID,
                   Validators = [\<lparr>PubKey = GetPubKey_pv pv, Power = 10\<rparr>]\<rparr>))"
proof -
  have a: "\<not> FileExists empty_world (GenesisFile sample_env)"
    and n: "\<not> FileExists empty_world (PrivValidatorFile sample_env)"
    by (simp_all add: FileExists_def empty_world_def)
  have b: "PrivValidatorFile sample_env \<noteq> GenesisFile sample_env"
    by (simp add: sample_env_def)
  note c = sample_first_run
  show ?thesis
    using a b c n initTendermint_genesis_doc [OF a b c] by simp
qed

text \<open>
  Claim C9. The Tendermint part preserves what exists: a private validator file that
  exists is not rewritten and no key is generated (the run does not depend on the key
  that would be drawn), a genesis file that exists is left unchanged, and after a run
  that returned, a second run with the same two paths returns and leaves the whole world,
  both files included, as the first run left it.
\<close>

theorem initTendermint_preserves:
  assumes "initTendermint env w = (st, w')"
  shows "(FileExists w (PrivValidatorFile env) \<longrightarrow>
            files w' (PrivValidatorFile env) = files w (PrivValidatorFile env)
            \<and> (\<forall>k. initTendermint (env\<lparr>FreshKey := k\<rparr>) w = (st, w')))
         \<and> (FileExists w (GenesisFile env) \<longrightarrow>
              files w' (GenesisFile env) = files w (GenesisFile env))
         \<and> (st = Finished None \<longrightarrow>
              (\<forall>env'. PrivValidatorFile env' = PrivValidatorFile env
                      \<and> GenesisFile env' = GenesisFile env \<longrightarrow>
                      initTendermint env' w' = (Finished None, w')))"
proof (intro conjI impI allI)
  assume ex: "FileExists w (PrivValidatorFile env)"
  show "files w' (PrivValidatorFile env) = files w (PrivValidatorFile env)"
    using assms ex
    by (auto simp: initTendermint_def FileExists_def Save_def SaveAs_def Let_def
        GenPrivValidatorFS_filePath split: if_splits option.splits sum.splits)
  fix k
  have "initTendermint (env\<lparr>FreshKey := k\<rparr>) w = initTendermint env w"
    using ex by (simp add: initTendermint_def SaveAs_def Let_def split: option.splits sum.splits)
  with assms show "initTendermint (env\<lparr>FreshKey := k\<rparr>) w = (st, w')"
    by simp
next
  assume ex: "FileExists w (GenesisFile env)"
  show "files w' (GenesisFile env) = files w (GenesisFile env)"
    using assms ex
    by (auto simp: initTendermint_def FileExists_def Save_def SaveAs_def Let_def
        GenPrivValidatorFS_filePath split: if_splits option.splits sum.splits)
next
  fix env' :: InitEnv
  assume fin: "st = Finished None"
    and same: "PrivValidatorFile env' = PrivValidatorFile env \<and> GenesisFile env' = GenesisFile env"
  from initTendermint_cases [OF assms] fin obtain pv w1 where
    pv: "if FileExists w (PrivValidatorFile env)
         then LoadPrivValidatorFS w (PrivValidatorFile env) = Some pv \<and> w1 = w
         else pv = GenPrivValidatorFS env (PrivValidatorFile env)
              \<and> SaveError env (PrivValidatorFile env) = None
              \<and> w1 = w\<lparr>files := (files w)(PrivValidatorFile env \<mapsto> PrivValidatorJSON pv)\<rparr>"
    and gen: "if FileExists w1 (GenesisFile env) then w' = w1
              else w' = w1\<lparr>files := (files w1)
                         (GenesisFile env \<mapsto>
                            GenesisJSON \<lparr>ChainID = GetString env FlagChainID,
                              Validators = [\<lparr>PubKey = GetPubKey_pv pv, Power = 10\<rparr>]\<rparr>)\<rparr>"
    by (auto split: if_splits)
  have l1: "\<exists>pv'. LoadPrivValidatorFS w1 (PrivValidatorFile env) = Some pv'"
    using pv by (auto simp: LoadPrivValidatorFS_saved split: if_splits)
  have l2: "\<exists>pv'. LoadPrivValidatorFS w' (PrivValidatorFile env) = Some pv'"
  proof (cases "FileExists w1 (GenesisFile env)")
    case True
    with gen l1 show ?thesis by simp
  next
    case False
    with l1 have "GenesisFile env \<noteq> PrivValidatorFile env"
      by (auto simp: FileExists_def LoadPrivValidatorFS_def split: option.splits)
    with False gen l1 show ?thesis by (simp add: LoadPrivValidatorFS_frame)
  qed
  have g: "FileExists w' (GenesisFile env)"
    using gen by (auto simp: FileExists_def split: if_splits)
  from l2 obtain pv' where "LoadPrivValidatorFS w' (PrivValidatorFile env') = Some pv'"
    using same by auto
  moreover have "FileExists w' (GenesisFile env')" using g same by simp
  ultimately show "initTendermint env' w' = (Finished None, w')"
    by (rule initTendermint_both_exist)
qed

theorem initTendermint_preserves_witness:
  "initTendermint sample_env empty_world = (Finished None, initialized_world)
   \<and> FileExists initialized_world (PrivValidatorFile sample_env)
   \<and> FileExists initialized_world (GenesisFile sample_env)
   \<and> initTendermint (sample_env\<lparr>FreshKey := (PubKeyBytes [9], [9])\<rparr>) initialized_world
       = (Finished None, initialized_world)
   \<and> initTendermint (sample_env\<lparr>FreshKey := (PubKeyBytes [8], [8])\<rparr>) initialized_world
       = (Finished None, initialized_world)"
proof -
  note h = sample_first_run
  have e1: "FileExists initialized_world (PrivValidatorFile sample_env)"
    and e2: "FileExists initialized_world (GenesisFile sample_env)"
    by (simp_all add: FileExists_def initialized_world_def sample_env_def)
  have s: "PrivValidatorFile (sample_env\<lparr>FreshKey := (PubKeyBytes [9], [9])\<rparr>)
             = PrivValidatorFile sample_env
           \<and> GenesisFile (sample_env\<lparr>FreshKey := (PubKeyBytes [9], [9])\<rparr>)
             = GenesisFile sample_env"
    by simp
  have second: "initTendermint (sample_env\<lparr>FreshKey := (PubKeyBytes [9], [9])\<rparr>) initialized_world
                  = (Finished None, initialized_world)"
    using initTendermint_preserves [OF h] s by blast
  have third: "initTendermint (sample_env\<lparr>FreshKey := (PubKeyBytes [8], [8])\<rparr>) initialized_world
                 = (Finished None, initialized_world)"
    using initTendermint_preserves [OF second] e1 s by auto
  show ?thesis using h e1 e2 second third by simp
qed

text \<open>
  Claim C3. On a fresh home (no private validator file, no genesis file, no chaindata
  database, the three file paths distinct) and when no operation fails, a single run of
  the init command returns nil and leaves: the private validator file with the generated
  validator, the genesis file with the genesis document, the chaindata database as
  \<open>SetupGenesisBlock\<close> left it after writing the genesis block with the configured
  chain id, the keystore directory, and in it the one keystore file of the address
  7eff122b94897ea5b0e2a9abf47b86337fafebdc with the fixed content; no other file is
  created.
\<close>

theorem initFiles_creates:
  assumes "files w (PrivValidatorFile env) = None" and "files w (GenesisFile env) = None"
    and "databases w (chaindata_path env) = None"
    and "PrivValidatorFile env \<noteq> GenesisFile env"
    and "keystore_file env \<noteq> PrivValidatorFile env"
    and "keystore_file env \<noteq> GenesisFile env"
    and "SaveError env (PrivValidatorFile env) = None" and "SaveError env (GenesisFile env) = None"
    and "ParseGenesisOrDefault env (ArgsFirst env) = Inr g" and "Config g = Some cfg"
    and "OpenDbError env (chaindata_path env) = None"
    and "SetupGenesisBlock env (ChainDb None)
           (g\<lparr>Config := Some (cfg\<lparr>ChainId := uint (EthChainId env)\<rparr>)\<rparr>) = Inr (db, hash)"
    and "MkdirAllError env (keystore_dir env) = None"
    and "CreateError env (keystore_file env) = None"
    and "WriteError env (keystore_file env) = None"
    and "CloseError env (keystore_file env) = None"
  shows "\<exists>w'. RunE GetInitCmd env w = (Finished None, w')
           \<and> files w' (PrivValidatorFile env)
               = Some (PrivValidatorJSON (GenPrivValidatorFS env (PrivValidatorFile env)))
           \<and> files w' (GenesisFile env)
               = Some (GenesisJSON
                   \<lparr>ChainID = GetString env FlagChainID,
                    Validators = [\<lparr>PubKey = fst (FreshKey env), Power = 10\<rparr>]\<rparr>)
           \<and> databases w' (chaindata_path env) = Some db
           \<and> keystore_dir env \<in> dirs w'
           \<and> files w' (keystore_file env) = Some (RawBytes keystore_content)
           \<and> dom (files w')
               = dom (files w) \<union> {PrivValidatorFile env, GenesisFile env, keystore_file env}"
proof -
  let ?w1 = "w\<lparr>files := (files w)
                 (PrivValidatorFile env \<mapsto>
                    PrivValidatorJSON (GenPrivValidatorFS env (PrivValidatorFile env)),
                  GenesisFile env \<mapsto>
                    GenesisJSON \<lparr>ChainID = GetString env FlagChainID,
                                 Validators = [\<lparr>PubKey = fst (FreshKey env), Power = 10\<rparr>]\<rparr>)\<rparr>"
  have t: "initTendermint env w = (Finished None, ?w1)"
    using assms(1,2,4,7,8) by (rule initTendermint_fresh)
  have d: "databases ?w1 (chaindata_path env) = None" using assms(3) by simp
  have e: "initEthermint env ?w1
             = (Finished None,
                ?w1\<lparr>databases := (databases ?w1)(chaindata_path env \<mapsto> db),
                  dirs := insert (keystore_dir env) (dirs ?w1),
                  files := (files ?w1)(keystore_file env \<mapsto> RawBytes keystore_content)\<rparr>)"
    using d assms(9-16) by (rule initEthermint_fresh)
  have "RunE GetInitCmd env w = initFiles env w" by (simp add: GetInitCmd_def)
  also have "\<dots> = initEthermint env ?w1" by (simp add: initFiles_def t)
  finally have r: "RunE GetInitCmd env w
             = (Finished None,
                ?w1\<lparr>databases := (databases ?w1)(chaindata_path env \<mapsto> db),
                  dirs := insert (keystore_dir env) (dirs ?w1),
                  files := (files ?w1)(keystore_file env \<mapsto> RawBytes keystore_content)\<rparr>)"
    using e by simp
  show ?thesis
    unfolding r using assms(4,5,6) by (intro exI conjI) (auto simp: fun_upd_def)
qed

theorem initFiles_creates_witness:
  "files empty_world (PrivValidatorFile sample_env) = None
   \<and> files empty_world (GenesisFile sample_env) = None
   \<and> databases empty_world (chaindata_path sample_env) = None
   \<and> PrivValidatorFile sample_env \<noteq> GenesisFile sample_env
   \<and> keystore_file sample_env \<noteq> PrivValidatorFile sample_env
   \<and> keystore_file sample_env \<noteq> GenesisFile sample_env
   \<and> (\<exists>w'. RunE GetInitCmd sample_env empty_world = (Finished None, w')
         \<and> files w' ''pv.json''
             = Some (PrivValidatorJSON
                 \<lparr>pv_PubKey = PubKeyBytes [1, 2, 3], pv_PrivKey = [4, 5, 6],
                  pv_filePath = ''pv.json''\<rparr>)
         \<and> files w' ''genesis.json''
             = Some (GenesisJSON
                 \<lparr>ChainID = ''local'',
                  Validators = [\<lparr>PubKey = PubKeyBytes [1, 2, 3], Power = 10\<rparr>]\<rparr>)
         \<and> databases w' ''data/vm/chaindata''
             = Some (ChainDb (Some \<lparr>Config = Some \<lparr>ChainId = 111, OtherRules = []\<rparr>, Alloc = []\<rparr>))
         \<and> ''data/keystore'' \<in> dirs w'
         \<and> files w'
              ''data/keystore/UTC--2016-10-21T22-30-03.071787745Z--7eff122b94897ea5b0e2a9abf47b86337fafebdc''
             = Some (RawBytes keystore_content))"
proof -
  have a1: "files empty_world (PrivValidatorFile sample_env) = None"
    and a2: "files empty_world (GenesisFile sample_env) = None"
    and a3: "databases empty_world (chaindata_path sample_env) = None"
    by (simp_all add: empty_world_def)
  have a4: "PrivValidatorFile sample_env \<noteq> GenesisFile sample_env"
    by (simp add: sample_env_def)
  have a5: "keystore_file sample_env \<noteq> PrivValidatorFile sample_env"
    and a6: "keystore_file sample_env \<noteq> GenesisFile sample_env"
    unfolding sample_keystore_file by (simp_all add: sample_env_def)
  have a7: "SaveError sample_env (PrivValidatorFile sample_env) = None"
    and a8: "SaveError sample_env (GenesisFile sample_env) = None"
    and a9: "ParseGenesisOrDefault sample_env (ArgsFirst sample_env)
               = Inr \<lparr>Config = Some \<lparr>ChainId = 1, OtherRules = []\<rparr>, Alloc = []\<rparr>"
    and a11: "OpenDbError sample_env (chaindata_path sample_env) = None"
    and a13: "MkdirAllError sample_env (keystore_dir sample_env) = None"
    and a14: "CreateError sample_env (keystore_file sample_env) = None"
    and a15: "WriteError sample_env (keystore_file sample_env) = None"
    and a16: "CloseError sample_env (keystore_file sample_env) = None"
    by (simp_all add: sample_env_def)
  have a10: "Config \<lparr>Config = Some \<lparr>ChainId = 1, OtherRules = []\<rparr>, Alloc = []\<rparr>
               = Some \<lparr>ChainId = 1, OtherRules = []\<rparr>"
    by simp
  have a12: "SetupGenesisBlock sample_env (ChainDb None)
               (\<lparr>Config = Some \<lparr>ChainId = 1, OtherRules = []\<rparr>, Alloc = []\<rparr>
                  \<lparr>Config := Some (\<lparr>ChainId = 1, OtherRules = []\<rparr>
                                     \<lparr>ChainId := uint (EthChainId sample_env)\<rparr>)\<rparr>)
             = Inr (ChainDb (Some \<lparr>Config = Some \<lparr>ChainId = 111, OtherRules = []\<rparr>, Alloc = []\<rparr>),
                    [7])"
    by (simp add: sample_env_def sample_SetupGenesisBlock_def)
  have p: "PrivValidatorFile sample_env = ''pv.json''" "GenesisFile sample_env = ''genesis.json''"
    "chaindata_path sample_env = ''data/vm/chaindata''" "keystore_dir sample_env = ''data/keystore''"
    "GetString sample_env FlagChainID = ''local''" "fst (FreshKey sample_env) = PubKeyBytes [1, 2, 3]"
    "GenPrivValidatorFS sample_env ''pv.json''
       = \<lparr>pv_PubKey = PubKeyBytes [1, 2, 3], pv_PrivKey = [4, 5, 6], pv_filePath = ''pv.json''\<rparr>"
    by (simp_all add: sample_env_def chaindata_path_def keystore_dir_def Join_def FlagChainID_def
        GenPrivValidatorFS_def)
  from initFiles_creates [OF a1 a2 a3 a4 a5 a6 a7 a8 a9 a10 a11 a12 a13 a14 a15 a16]
  have "\<exists>w'. RunE GetInitCmd sample_env empty_world = (Finished None, w')
         \<and> files w' ''pv.json''
             = Some (PrivValidatorJSON
                 \<lparr>pv_PubKey = PubKeyBytes [1, 2, 3], pv_PrivKey = [4, 5, 6],
                  pv_filePath = ''pv.json''\<rparr>)
         \<and> files w' ''genesis.json''
             = Some (GenesisJSON
                 \<lparr>ChainID = ''local'',
                  Validators = [\<lparr>PubKey = PubKeyBytes [1, 2, 3], Power = 10\<rparr>]\<rparr>)
         \<and> databases w' ''data/vm/chaindata''
             = Some (ChainDb (Some \<lparr>Config = Some \<lparr>ChainId = 111, OtherRules = []\<rparr>, Alloc = []\<rparr>))
         \<and> ''data/keystore'' \<in> dirs w'
         \<and> files w'
              ''data/keystore/UTC--2016-10-21T22-30-03.071787745Z--7eff122b94897ea5b0e2a9abf47b86337fafebdc''
             = Some (RawBytes keystore_content)"
    unfolding p sample_keystore_file by blast
  with a1 a2 a3 a4 a5 a6 show ?thesis by blast
qed

end
